theory Spec2Isabelle
  imports Complex_Main "HOL-Library.AList"
begin

section \<open>JavaScript values\<close>

text \<open>
  The module works on JSON payloads and on the values of the JavaScript runtime. A number is
  modelled by its exact value: \<open>Fin q\<close> stands for the double nearest to \<open>q\<close>, and the
  rounding to a double is not modelled; \<open>Fin 0\<close> stands for both zeros. A string is a
  sequence of UTF-16 code units below 256 (the Latin-1 range), a \<open>char\<close> being the code unit
  of that number; strings with higher code units are outside the model. An object is an
  association list from property names to values, in which the first binding of a name is
  its value; as in the payloads of the upstream, no object has a member named \<open>toString\<close>
  or \<open>valueOf\<close>, which the conversions below would call.
\<close>

datatype jsnum = NaN | PInf | NInf | Fin rat

datatype jsval =
    Undefined
  | Null
  | Bool bool
  | Num jsnum
  | Str string
  | Arr "jsval list"
  | Obj "(string \<times> jsval) list"

text \<open>
  What the code throws: \<open>new Error(message)\<close>, the runtime's \<open>TypeError\<close> (with its message)
  and \<open>new functions.https.HttpsError(code, message, details)\<close>.
\<close>

datatype js_error =
    Error string
  | TypeError string
  | HttpsError string string jsval

fun error_message :: "js_error \<Rightarrow> string" where
  "error_message (Error m) = m"
| "error_message (TypeError m) = m"
| "error_message (HttpsError c m d) = m"

subsection \<open>Number arithmetic\<close>

fun num_neg :: "jsnum \<Rightarrow> jsnum" where
  "num_neg NaN = NaN"
| "num_neg PInf = NInf"
| "num_neg NInf = PInf"
| "num_neg (Fin a) = Fin (- a)"

fun num_add :: "jsnum \<Rightarrow> jsnum \<Rightarrow> jsnum" where
  "num_add (Fin a) (Fin b) = Fin (a + b)"
| "num_add NaN _ = NaN"
| "num_add _ NaN = NaN"
| "num_add PInf NInf = NaN"
| "num_add NInf PInf = NaN"
| "num_add PInf _ = PInf"
| "num_add NInf _ = NInf"
| "num_add _ PInf = PInf"
| "num_add _ NInf = NInf"

definition num_sub :: "jsnum \<Rightarrow> jsnum \<Rightarrow> jsnum" where
  "num_sub a b = num_add a (num_neg b)"

fun num_sign :: "jsnum \<Rightarrow> rat" where
  "num_sign (Fin a) = sgn a"
| "num_sign PInf = 1"
| "num_sign NInf = - 1"
| "num_sign NaN = 0"

fun num_mul :: "jsnum \<Rightarrow> jsnum \<Rightarrow> jsnum" where
  "num_mul (Fin a) (Fin b) = Fin (a * b)"
| "num_mul NaN _ = NaN"
| "num_mul _ NaN = NaN"
| "num_mul a b =
     (if num_sign a * num_sign b = 0 then NaN
      else if 0 < num_sign a * num_sign b then PInf else NInf)"

text \<open>\<open>a > b\<close> on numbers: false as soon as one side is \<open>NaN\<close>.\<close>

fun num_gt :: "jsnum \<Rightarrow> jsnum \<Rightarrow> bool" where
  "num_gt (Fin a) (Fin b) = (b < a)"
| "num_gt NaN _ = False"
| "num_gt _ NaN = False"
| "num_gt PInf PInf = False"
| "num_gt PInf _ = True"
| "num_gt NInf _ = False"
| "num_gt _ NInf = True"
| "num_gt _ PInf = False"

definition num_lt :: "jsnum \<Rightarrow> jsnum \<Rightarrow> bool" where
  "num_lt a b = num_gt b a"

text \<open>\<open>Math.min(a, b)\<close> on numbers.\<close>

definition num_min :: "jsnum \<Rightarrow> jsnum \<Rightarrow> jsnum" where
  "num_min a b = (if a = NaN \<or> b = NaN then NaN else if num_gt a b then b else a)"

subsection \<open>Strings\<close>

text \<open>
  The white space and line terminators of the language below 256: TAB, LF, VT, FF, CR, the
  space and the no-break space U+00A0.
\<close>

definition is_ws :: "char \<Rightarrow> bool" where
  "is_ws c =
     ((of_char c :: nat) = 32 \<or> (of_char c :: nat) = 160
      \<or> (9 \<le> (of_char c :: nat) \<and> (of_char c :: nat) \<le> 13))"

text \<open>
  \<open>String.prototype.trim\<close> and \<open>String.prototype.toLowerCase\<close>. Below 256 the letters with
  a lower case are A to Z and U+00C0 to U+00DE without the multiplication sign U+00D7; each
  lower case is 32 above.
\<close>

definition trim :: "string \<Rightarrow> string" where
  "trim s = rev (dropWhile is_ws (rev (dropWhile is_ws s)))"

definition lower_char :: "char \<Rightarrow> char" where
  "lower_char c =
     (if (65 \<le> (of_char c :: nat) \<and> (of_char c :: nat) \<le> 90)
         \<or> (192 \<le> (of_char c :: nat) \<and> (of_char c :: nat) \<le> 222 \<and> (of_char c :: nat) \<noteq> 215)
      then char_of ((of_char c :: nat) + 32) else c)"

definition toLowerCase :: "string \<Rightarrow> string" where
  "toLowerCase s = map lower_char s"

definition is_digit :: "char \<Rightarrow> bool" where
  "is_digit c = (48 \<le> (of_char c :: nat) \<and> (of_char c :: nat) \<le> 57)"

definition digit_val :: "char \<Rightarrow> nat" where
  "digit_val c = of_char c - 48"

definition digits_val :: "string \<Rightarrow> nat" where
  "digits_val ds = foldl (\<lambda>a c. 10 * a + digit_val c) 0 ds"

definition digit_char :: "nat \<Rightarrow> char" where
  "digit_char d = char_of (48 + d)"

text \<open>The decimal digits of a natural number.\<close>

fun natToString :: "nat \<Rightarrow> string" where
  "natToString n = (if n < 10 then [digit_char n] else natToString (n div 10) @ [digit_char (n mod 10)])"

declare natToString.simps [simp del]

text \<open>
  The digits after the decimal point of \<open>r\<close> with \<open>0 \<le> r < 1\<close>, at most \<open>fuel\<close> of them
  (a double prints with at most 17 significant digits).
\<close>

fun frac_digits :: "nat \<Rightarrow> rat \<Rightarrow> string" where
  "frac_digits 0 r = []"
| "frac_digits (Suc fuel) r =
     (if r = 0 then []
      else digit_char (nat \<lfloor>r * 10\<rfloor>) # frac_digits fuel (r * 10 - of_int \<lfloor>r * 10\<rfloor>))"

text \<open>
  \<open>Number.prototype.toString\<close>, in decimal notation. It is what the runtime prints for the
  integers below \<open>10^21\<close> and for the decimal fractions of at least \<open>10^-6\<close> with up to 17
  significant digits; the exponent notation that the runtime uses outside that range is not
  modelled.
\<close>

definition numToString :: "jsnum \<Rightarrow> string" where
  "numToString n =
     (case n of
        NaN \<Rightarrow> ''NaN''
      | PInf \<Rightarrow> ''Infinity''
      | NInf \<Rightarrow> ''-Infinity''
      | Fin q \<Rightarrow>
          (let a = \<bar>q\<bar>; ip = \<lfloor>a\<rfloor>; fp = a - of_int ip in
           (if q < 0 then ''-'' else '''') @ natToString (nat ip) @
           (if fp = 0 then '''' else ''.'' @ frac_digits 20 fp)))"

text \<open>
  The longest prefix of a string that is a \<open>StrDecimalLiteral\<close> (an optional sign, then
  \<open>Infinity\<close> or digits with an optional fraction and an optional exponent), with its value
  and the rest of the string; \<open>None\<close> when no prefix is one.
\<close>

definition parse_exponent :: "string \<Rightarrow> int \<times> string" where
  "parse_exponent s =
     (case s of
        [] \<Rightarrow> (0, s)
      | c # r \<Rightarrow>
          if c = CHR ''e'' \<or> c = CHR ''E'' then
            (let neg = (r \<noteq> [] \<and> hd r = CHR ''-'');
                 r1 = (if r \<noteq> [] \<and> (hd r = CHR ''-'' \<or> hd r = CHR ''+'') then tl r else r);
                 ds = takeWhile is_digit r1
             in if ds = [] then (0, s)
                else ((if neg then - int (digits_val ds) else int (digits_val ds)), dropWhile is_digit r1))
          else (0, s))"

definition scale10 :: "rat \<Rightarrow> int \<Rightarrow> rat" where
  "scale10 m e = (if 0 \<le> e then m * 10 ^ nat e else m / 10 ^ nat (- e))"

definition parse_decimal :: "string \<Rightarrow> (jsnum \<times> string) option" where
  "parse_decimal s =
     (let neg = (s \<noteq> [] \<and> hd s = CHR ''-'');
          u = (if s \<noteq> [] \<and> (hd s = CHR ''-'' \<or> hd s = CHR ''+'') then tl s else s)
      in if take 8 u = ''Infinity'' then Some (if neg then NInf else PInf, drop 8 u)
         else
           (let ip = takeWhile is_digit u; r1 = dropWhile is_digit u;
                has_dot = (r1 \<noteq> [] \<and> hd r1 = CHR ''.'');
                fp = (if has_dot then takeWhile is_digit (tl r1) else []);
                r2 = (if has_dot then dropWhile is_digit (tl r1) else r1)
            in if ip = [] \<and> fp = [] then None
               else
                 (let (e, r3) = parse_exponent r2;
                      m = of_nat (digits_val (ip @ fp)) / 10 ^ length fp
                  in Some (Fin (scale10 (if neg then - m else m) e), r3))))"

text \<open>The builtin \<open>parseFloat\<close> on a string: leading white space is skipped.\<close>

definition strToFloat :: "string \<Rightarrow> jsnum" where
  "strToFloat s = (case parse_decimal (dropWhile is_ws s) of None \<Rightarrow> NaN | Some (v, r) \<Rightarrow> v)"

text \<open>
  \<open>StringToNumber\<close>, the conversion of a string by an arithmetic operator: the whole trimmed
  string has to be a numeric literal, and the empty string is 0.
\<close>

definition radix_digit :: "char \<Rightarrow> nat option" where
  "radix_digit c =
     (let n = (of_char c :: nat) in
      if 48 \<le> n \<and> n \<le> 57 then Some (n - 48)
      else if 97 \<le> n \<and> n \<le> 102 then Some (n - 87)
      else if 65 \<le> n \<and> n \<le> 70 then Some (n - 55)
      else None)"

definition parse_radix :: "nat \<Rightarrow> string \<Rightarrow> jsnum" where
  "parse_radix b ds =
     (if ds \<noteq> [] \<and> (\<forall>c \<in> set ds. case radix_digit c of None \<Rightarrow> False | Some d \<Rightarrow> d < b)
      then Fin (of_nat (foldl (\<lambda>a c. b * a + (case radix_digit c of None \<Rightarrow> 0 | Some d \<Rightarrow> d)) 0 ds))
      else NaN)"

definition strToNumber :: "string \<Rightarrow> jsnum" where
  "strToNumber s =
     (let t = trim s; p = toLowerCase (take 2 t) in
      if t = [] then Fin 0
      else if p = ''0x'' then parse_radix 16 (drop 2 t)
      else if p = ''0o'' then parse_radix 8 (drop 2 t)
      else if p = ''0b'' then parse_radix 2 (drop 2 t)
      else (case parse_decimal t of Some (v, []) \<Rightarrow> v | _ \<Rightarrow> NaN))"

subsection \<open>Conversions and property access\<close>

definition nullish :: "jsval \<Rightarrow> bool" where
  "nullish v = (v = Undefined \<or> v = Null)"

text \<open>Truthiness, as tested by \<open>if (v)\<close>, \<open>!v\<close> and \<open>v || d\<close>.\<close>

fun truthy :: "jsval \<Rightarrow> bool" where
  "truthy Undefined = False"
| "truthy Null = False"
| "truthy (Bool b) = b"
| "truthy (Num n) = (n \<noteq> NaN \<and> n \<noteq> Fin 0)"
| "truthy (Str s) = (s \<noteq> [])"
| "truthy (Arr xs) = True"
| "truthy (Obj kvs) = True"

definition js_or :: "jsval \<Rightarrow> jsval \<Rightarrow> jsval" where
  "js_or v d = (if truthy v then v else d)"

definition join :: "string \<Rightarrow> string list \<Rightarrow> string" where
  "join sep ss = (case ss of [] \<Rightarrow> [] | s # r \<Rightarrow> foldl (\<lambda>a b. a @ sep @ b) s r)"

text \<open>\<open>ToString\<close>, as applied by a template literal and by \<open>URLSearchParams\<close>.\<close>

fun ToString :: "jsval \<Rightarrow> string" where
  "ToString Undefined = ''undefined''"
| "ToString Null = ''null''"
| "ToString (Bool b) = (if b then ''true'' else ''false'')"
| "ToString (Num n) = numToString n"
| "ToString (Str s) = s"
| "ToString (Arr xs) = join '','' (map (\<lambda>x. if x = Undefined \<or> x = Null then [] else ToString x) xs)"
| "ToString (Obj kvs) = ''[object Object]''"

text \<open>\<open>ToNumber\<close>, as applied by \<open>*\<close>, \<open>>\<close> and \<open>Math.min\<close>.\<close>

fun ToNumber :: "jsval \<Rightarrow> jsnum" where
  "ToNumber Undefined = NaN"
| "ToNumber Null = Fin 0"
| "ToNumber (Bool b) = (if b then Fin 1 else Fin 0)"
| "ToNumber (Num n) = n"
| "ToNumber (Str s) = strToNumber s"
| "ToNumber v = strToNumber (ToString v)"

text \<open>
  The builtin \<open>parseFloat\<close>: its argument is converted to a string first. The string printed
  for a number parses back to that number, which is written out here.
\<close>

fun parseFloat :: "jsval \<Rightarrow> jsnum" where
  "parseFloat (Num n) = n"
| "parseFloat v = strToFloat (ToString v)"

text \<open>
  Reading a property. Of the inherited properties only \<open>length\<close> of strings and arrays is
  modelled; the program reads no other one. \<open>js_prop\<close> is for a value that is not \<open>null\<close> or
  \<open>undefined\<close>; \<open>get_prop\<close> throws as the runtime does on those two.
\<close>

fun js_prop :: "jsval \<Rightarrow> string \<Rightarrow> jsval" where
  "js_prop (Obj kvs) k = (case map_of kvs k of None \<Rightarrow> Undefined | Some v \<Rightarrow> v)"
| "js_prop (Arr xs) k = (if k = ''length'' then Num (Fin (of_nat (length xs))) else Undefined)"
| "js_prop (Str s) k = (if k = ''length'' then Num (Fin (of_nat (length s))) else Undefined)"
| "js_prop _ k = Undefined"

definition cannot_read :: "jsval \<Rightarrow> string \<Rightarrow> js_error" where
  "cannot_read v k = TypeError (''Cannot read properties of '' @ ToString v @ '' (reading '' @ [CHR 0x27] @ k @ [CHR 0x27] @ '')'')"

definition get_prop :: "jsval \<Rightarrow> string \<Rightarrow> js_error + jsval" where
  "get_prop v k = (if nullish v then Inl (cannot_read v k) else Inr (js_prop v k))"

text \<open>\<open>v[0]\<close> on a value that is not \<open>null\<close> or \<open>undefined\<close>.\<close>

fun elem0 :: "jsval \<Rightarrow> jsval" where
  "elem0 (Arr xs) = (case xs of [] \<Rightarrow> Undefined | x # _ \<Rightarrow> x)"
| "elem0 (Str s) = (case s of [] \<Rightarrow> Undefined | c # _ \<Rightarrow> Str [c])"
| "elem0 v = js_prop v ''0''"

text \<open>
  A call of a string method, \<open>v.trim()\<close> or \<open>v.toLowerCase()\<close>: on anything but a string the
  method is missing and the call throws.
\<close>

definition str_method :: "string \<Rightarrow> (string \<Rightarrow> string) \<Rightarrow> jsval \<Rightarrow> js_error + string" where
  "str_method name f v =
     (case v of
        Str s \<Rightarrow> Inr (f s)
      | _ \<Rightarrow> if nullish v then Inl (cannot_read v name) else Inl (TypeError (name @ '' is not a function'')))"

text \<open>\<open>v.toString()\<close>.\<close>

definition method_toString :: "jsval \<Rightarrow> js_error + string" where
  "method_toString v = (if nullish v then Inl (cannot_read v ''toString'') else Inr (ToString v))"

section \<open>The normalizer\<close>

text \<open>The object built by \<open>standardizeNutritionData\<close> (fatSecretAPI.js, lines 203 to 212).\<close>

record nutrition =
  calories :: jsnum
  protein :: jsnum
  fat :: jsnum
  carbohydrates :: jsnum
  foodName :: jsval
  source :: string
  servingSize :: jsval
  microNutrients :: "(string \<times> jsnum) list"

text \<open>\<open>parseFloat(x) || 0\<close>.\<close>

definition float_or0 :: "jsval \<Rightarrow> jsnum" where
  "float_or0 x = (if truthy (Num (parseFloat x)) then parseFloat x else Fin 0)"

text \<open>\<open>if (serving.src) nutrition.microNutrients.dst = parseFloat(serving.src)\<close>.\<close>

definition micro :: "jsval \<Rightarrow> string \<Rightarrow> string \<Rightarrow> (string \<times> jsnum) list \<Rightarrow> (string \<times> jsnum) list" where
  "micro serving src dst m =
     (if truthy (js_prop serving src) then AList.update dst (parseFloat (js_prop serving src)) m else m)"

text \<open>\<open>Array.isArray(ss) ? ss[0] : ss\<close> (lines 221 to 223).\<close>

definition first_serving :: "jsval \<Rightarrow> jsval" where
  "first_serving ss = (case ss of Arr xs \<Rightarrow> elem0 ss | _ \<Rightarrow> ss)"

text \<open>
  \<open>standardizeNutritionData\<close> (lines 201 to 245). The default object reads
  \<open>fatSecretFood.food_name\<close> before the \<open>try\<close> block, so that read throws to the caller. Inside
  the \<open>try\<close> block the only statement that can throw is the first read of \<open>serving\<close> (line
  226), when \<open>serving\<close> is \<open>null\<close> or \<open>undefined\<close>; the \<open>catch\<close> block then returns the object
  as it stands, with nothing assigned yet.
\<close>

definition standardizeNutritionData :: "jsval \<Rightarrow> js_error + nutrition" where
  "standardizeNutritionData fatSecretFood =
     (case get_prop fatSecretFood ''food_name'' of
        Inl e \<Rightarrow> Inl e
      | Inr food_name \<Rightarrow>
          (let nutrition = \<lparr> calories = Fin 0, protein = Fin 0, fat = Fin 0, carbohydrates = Fin 0,
                 foodName = js_or food_name (Str ''Unknown Food''), source = ''FatSecret'',
                 servingSize = Str ''100g'', microNutrients = [] \<rparr>
           in if \<not> truthy (js_prop fatSecretFood ''servings'')
                 \<or> \<not> truthy (js_prop (js_prop fatSecretFood ''servings'') ''serving'')
              then Inr nutrition
              else
                (let serving = first_serving (js_prop (js_prop fatSecretFood ''servings'') ''serving'')
                 in if nullish serving then Inr nutrition
                    else Inr (nutrition
                      \<lparr> calories := float_or0 (js_prop serving ''calories''),
                        protein := float_or0 (js_prop serving ''protein''),
                        fat := float_or0 (js_prop serving ''fat''),
                        carbohydrates := float_or0 (js_prop serving ''carbohydrate''),
                        servingSize := js_or (js_prop serving ''serving_description'') (Str ''100g''),
                        microNutrients :=
                          micro serving ''saturated_fat'' ''saturatedFat''
                            (micro serving ''cholesterol'' ''cholesterol''
                              (micro serving ''potassium'' ''potassium''
                                (micro serving ''sodium'' ''sodium''
                                  (micro serving ''sugar'' ''sugar''
                                    (micro serving ''fiber'' ''fiber'' []))))) \<rparr>))))"

text \<open>The object as a value, as it is cached and returned to the callers.\<close>

definition nutrition_value :: "nutrition \<Rightarrow> jsval" where
  "nutrition_value n =
     Obj [(''calories'', Num (calories n)), (''protein'', Num (protein n)), (''fat'', Num (fat n)),
          (''carbohydrates'', Num (carbohydrates n)), (''foodName'', foodName n),
          (''source'', Str (source n)), (''servingSize'', servingSize n),
          (''microNutrients'', Obj (map (\<lambda>(k, v). (k, Num v)) (microNutrients n)))]"

section \<open>The world of the module\<close>

text \<open>
  An outbound request is a form-encoded POST: its URL, its headers and the parameters of its
  body. The upstream answers a request with a rejection of \<open>fetch\<close> (a network failure) or
  with a response: its status and what \<open>response.json()\<close> gives, the parsed body or the
  message of the error it rejects with. Reading the text of a response for the log does not
  fail.
\<close>

datatype request = Request string "(string \<times> string) list" "(string \<times> string) list"

datatype fetch_result = Rejected string | Response nat "string + jsval"

text \<open>\<open>response.ok\<close>.\<close>

definition ok :: "nat \<Rightarrow> bool" where
  "ok status = (200 \<le> status \<and> status \<le> 299)"

record cache_entry =
  entry_value :: jsval
  expiresAt :: jsnum

text \<open>
  The state the module works on: the cache store of \<open>apiUtils\<close>, the clock read by
  \<open>Date.now()\<close> (in milliseconds), the process environment and the requests sent so far,
  oldest first. Each operation runs to completion before the next one starts.
\<close>

record world =
  cache :: "string \<rightharpoonup> cache_entry"
  clock :: int
  env :: "string \<rightharpoonup> string"
  sent :: "request list"

text \<open>
  The upstream service: its answer to a request sent in a given state of the world, and the
  time in milliseconds that the answer takes.
\<close>

type_synonym upstream = "world \<Rightarrow> request \<Rightarrow> fetch_result \<times> nat"

definition now :: "world \<Rightarrow> jsnum" where
  "now w = Fin (of_int (clock w))"

definition fetch :: "upstream \<Rightarrow> request \<Rightarrow> world \<Rightarrow> fetch_result \<times> world" where
  "fetch net r w =
     (fst (net w r), w\<lparr> clock := clock w + int (snd (net w r)), sent := sent w @ [r] \<rparr>)"

text \<open>
  Modelled from the spec: \<open>apiUtils.getCachedResponse\<close> and \<open>apiUtils.cacheResponse\<close>, whose
  module is not among the sources. The store maps a key to a value with an expiration;
  \<open>get(key)\<close> returns the value or a miss, a read after \<open>expiresAt\<close> being treated as absent;
  \<open>put(key, value, ttlSeconds)\<close> stores the value with its expiry.
\<close>

definition getCachedResponse :: "string \<Rightarrow> world \<Rightarrow> jsval" where
  "getCachedResponse key w =
     (case cache w key of
        None \<Rightarrow> Undefined
      | Some e \<Rightarrow> if num_gt (now w) (expiresAt e) then Undefined else entry_value e)"

definition cacheResponse :: "string \<Rightarrow> jsval \<Rightarrow> jsval \<Rightarrow> world \<Rightarrow> world" where
  "cacheResponse key v ttlSeconds w =
     w\<lparr> cache := (cache w)(key \<mapsto>
          \<lparr> entry_value = v, expiresAt = num_add (now w) (num_mul (ToNumber ttlSeconds) (Fin 1000)) \<rparr>) \<rparr>"

section \<open>The token manager\<close>

definition FATSECRET_TOKEN_URL :: string where
  "FATSECRET_TOKEN_URL = ''https://oauth.fatsecret.com/connect/token''"

definition FATSECRET_API_URL :: string where
  "FATSECRET_API_URL = ''https://platform.fatsecret.com/rest/server.api''"

definition TOKEN_CACHE_KEY :: string where
  "TOKEN_CACHE_KEY = ''fatsecret_token''"

text \<open>The grant request of lines 39 to 50.\<close>

definition tokenRequest :: "jsval \<Rightarrow> jsval \<Rightarrow> request" where
  "tokenRequest clientId clientSecret =
     Request FATSECRET_TOKEN_URL
       [(''Content-Type'', ''application/x-www-form-urlencoded'')]
       [(''grant_type'', ''client_credentials''),
        (''scope'', ''basic premier barcode localization''),
        (''client_id'', ToString clientId),
        (''client_secret'', ToString clientSecret)]"

text \<open>
  The own properties copied by the spread \<open>{...v}\<close>: those of an object, the elements of an
  array and the characters of a string under their indices, none for the other values.
\<close>

definition spread :: "jsval \<Rightarrow> (string \<times> jsval) list" where
  "spread v =
     (case v of
        Obj kvs \<Rightarrow> kvs
      | Arr xs \<Rightarrow> zip (map natToString [0 ..< length xs]) xs
      | Str s \<Rightarrow> zip (map natToString [0 ..< length s]) (map (\<lambda>c. Str [c]) s)
      | _ \<Rightarrow> [])"

text \<open>\<open>process.env.NAME\<close>: the string the variable is set to, or \<open>undefined\<close>.\<close>

definition getenv :: "world \<Rightarrow> string \<Rightarrow> jsval" where
  "getenv w name = (case env w name of None \<Rightarrow> Undefined | Some s \<Rightarrow> Str s)"

text \<open>\<open>cachedToken && cachedToken.expires_at > Date.now()\<close> (line 24).\<close>

definition token_valid :: "jsval \<Rightarrow> world \<Rightarrow> bool" where
  "token_valid cachedToken w =
     (truthy cachedToken \<and> num_gt (ToNumber (js_prop cachedToken ''expires_at'')) (now w))"

text \<open>
  \<open>getAccessToken\<close> (lines 20 to 74). Its \<open>catch\<close> block logs the error and throws it again.
\<close>

definition getAccessToken :: "upstream \<Rightarrow> world \<Rightarrow> (js_error + jsval) \<times> world" where
  "getAccessToken net w =
     (let cachedToken = getCachedResponse TOKEN_CACHE_KEY w in
      if token_valid cachedToken w
      then (Inr (js_prop cachedToken ''access_token''), w)
      else
        (let clientId = getenv w ''FATSECRET_CLIENT_ID'';
             clientSecret = getenv w ''FATSECRET_CLIENT_SECRET''
         in if \<not> truthy clientId \<or> \<not> truthy clientSecret
            then (Inl (Error ''FatSecret API credentials not configured''), w)
            else
              (case fetch net (tokenRequest clientId clientSecret) w of
                 (Rejected msg, w1) \<Rightarrow> (Inl (Error msg), w1)
               | (Response status body, w1) \<Rightarrow>
                   if \<not> ok status
                   then (Inl (Error (''Failed to get FatSecret token: '' @ natToString status)), w1)
                   else
                     (case body of
                        Inl msg \<Rightarrow> (Inl (Error msg), w1)
                      | Inr tokenData \<Rightarrow>
                          (case get_prop tokenData ''expires_in'' of
                             Inl e \<Rightarrow> (Inl e, w1)
                           | Inr expires_in \<Rightarrow>
                               (let tokenWithExpiry =
                                      Obj (AList.update ''expires_at''
                                        (Num (num_sub (num_add (now w1) (num_mul (ToNumber expires_in) (Fin 1000))) (Fin 60000)))
                                        (spread tokenData));
                                    w2 = cacheResponse TOKEN_CACHE_KEY tokenWithExpiry expires_in w1
                                in (Inr (js_prop tokenData ''access_token''), w2)))))))"

section \<open>The clients\<close>

text \<open>A request to the API endpoint, with the bearer token in its headers.\<close>

definition apiRequest :: "jsval \<Rightarrow> (string \<times> string) list \<Rightarrow> request" where
  "apiRequest accessToken params =
     Request FATSECRET_API_URL
       [(''Content-Type'', ''application/x-www-form-urlencoded''),
        (''Authorization'', ''Bearer '' @ ToString accessToken)]
       params"

text \<open>A default parameter value, \<open>function f(x = d)\<close>: it replaces \<open>undefined\<close> only.\<close>

definition default_param :: "jsval \<Rightarrow> jsval \<Rightarrow> jsval" where
  "default_param v d = (if v = Undefined then d else v)"

text \<open>\<open>Array.isArray(v) ? v : [v]\<close>.\<close>

definition as_list :: "jsval \<Rightarrow> jsval" where
  "as_list v = (case v of Arr xs \<Rightarrow> v | _ \<Rightarrow> Arr [v])"

definition search_key :: "string \<Rightarrow> string" where
  "search_key lq = ''fatsecret_search_'' @ trim lq"

text \<open>The search request of lines 98 to 110.\<close>

definition searchRequest :: "jsval \<Rightarrow> jsval \<Rightarrow> string \<Rightarrow> request" where
  "searchRequest accessToken query max_results =
     apiRequest accessToken
       [(''method'', ''foods.search''),
        (''search_expression'', ToString query),
        (''max_results'', max_results),
        (''format'', ''json'')]"

text \<open>The \<open>try\<close> block of \<open>searchFoods\<close> (lines 84 to 135); \<open>Inl\<close> is an error thrown in it.\<close>

definition searchFoods_try :: "upstream \<Rightarrow> jsval \<Rightarrow> jsval \<Rightarrow> world \<Rightarrow> (js_error + jsval) \<times> world" where
  "searchFoods_try net query maxResults w =
     (case str_method ''query.toLowerCase'' toLowerCase query of
        Inl e \<Rightarrow> (Inl e, w)
      | Inr lq \<Rightarrow>
          (let cacheKey = search_key lq;
               cachedResults = getCachedResponse cacheKey w
           in if truthy cachedResults then (Inr cachedResults, w)
              else
                (case getAccessToken net w of
                   (Inl e, w1) \<Rightarrow> (Inl e, w1)
                 | (Inr accessToken, w1) \<Rightarrow>
                     (case method_toString maxResults of
                        Inl e \<Rightarrow> (Inl e, w1)
                      | Inr max_results \<Rightarrow>
                          (case fetch net (searchRequest accessToken query max_results) w1 of
                             (Rejected msg, w2) \<Rightarrow> (Inl (Error msg), w2)
                           | (Response status body, w2) \<Rightarrow>
                               if \<not> ok status
                               then (Inl (Error (''Failed to search FatSecret: '' @ natToString status)), w2)
                               else
                                 (case body of
                                    Inl msg \<Rightarrow> (Inl (Error msg), w2)
                                  | Inr searchData \<Rightarrow>
                                      (case get_prop searchData ''foods'' of
                                         Inl e \<Rightarrow> (Inl e, w2)
                                       | Inr foods_field \<Rightarrow>
                                           if \<not> truthy foods_field \<or> \<not> truthy (js_prop foods_field ''food'')
                                           then (Inr (Arr []), w2)
                                           else
                                             (let foods = as_list (js_prop foods_field ''food'')
                                              in (Inr foods, cacheResponse cacheKey foods (Num (Fin 86400)) w2)))))))))"

text \<open>\<open>searchFoods\<close> (lines 82 to 140): the \<open>catch\<close> block returns the empty list.\<close>

definition searchFoods :: "upstream \<Rightarrow> jsval \<Rightarrow> jsval \<Rightarrow> world \<Rightarrow> (js_error + jsval) \<times> world" where
  "searchFoods net query maxResults w =
     (case searchFoods_try net query (default_param maxResults (Num (Fin 3))) w of
        (Inl e, w') \<Rightarrow> (Inr (Arr []), w')
      | (Inr v, w') \<Rightarrow> (Inr v, w'))"

definition food_key :: "jsval \<Rightarrow> string" where
  "food_key foodId = ''fatsecret_food_'' @ ToString foodId"

text \<open>The detail request of lines 163 to 175.\<close>

definition detailsRequest :: "jsval \<Rightarrow> jsval \<Rightarrow> request" where
  "detailsRequest accessToken foodId =
     apiRequest accessToken
       [(''method'', ''food.get.v2''),
        (''food_id'', ToString foodId),
        (''format'', ''json''),
        (''include_sub_categories'', ''true'')]"

text \<open>
  \<open>getFoodDetails\<close> (lines 147 to 194). Its \<open>catch\<close> block logs the error and throws it again.
\<close>

definition getFoodDetails :: "upstream \<Rightarrow> jsval \<Rightarrow> world \<Rightarrow> (js_error + jsval) \<times> world" where
  "getFoodDetails net foodId w =
     (let cacheKey = food_key foodId;
          cachedResults = getCachedResponse cacheKey w
      in if truthy cachedResults then (Inr cachedResults, w)
         else
           (case getAccessToken net w of
              (Inl e, w1) \<Rightarrow> (Inl e, w1)
            | (Inr accessToken, w1) \<Rightarrow>
                (case fetch net (detailsRequest accessToken foodId) w1 of
                   (Rejected msg, w2) \<Rightarrow> (Inl (Error msg), w2)
                 | (Response status body, w2) \<Rightarrow>
                     if \<not> ok status
                     then (Inl (Error (''Failed to get FatSecret food details: '' @ natToString status)), w2)
                     else
                       (case body of
                          Inl msg \<Rightarrow> (Inl (Error msg), w2)
                        | Inr detailsData \<Rightarrow>
                            (case get_prop detailsData ''food'' of
                               Inl e \<Rightarrow> (Inl e, w2)
                             | Inr food \<Rightarrow>
                                 (Inr food, cacheResponse cacheKey food (Num (Fin 604800)) w2))))))"

definition autocomplete_key :: "string \<Rightarrow> jsval \<Rightarrow> jsval \<Rightarrow> string" where
  "autocomplete_key le maxResults region =
     ''fatsecret_autocomplete_'' @ trim le @ ''_'' @ ToString maxResults @ ''_''
       @ ToString (js_or region (Str ''default''))"

text \<open>The parameters of the autocomplete request (lines 319 to 329).\<close>

definition autocomplete_params :: "string \<Rightarrow> jsval \<Rightarrow> jsval \<Rightarrow> (string \<times> string) list" where
  "autocomplete_params te maxResults region =
     [(''method'', ''foods.autocomplete.v2''),
      (''expression'', te),
      (''max_results'', numToString (num_min (ToNumber maxResults) (Fin 10))),
      (''format'', ''json'')]
     @ (if truthy region then [(''region'', ToString region)] else [])"

text \<open>The \<open>try\<close> block of \<open>autocompleteSearch\<close> (lines 301 to 367).\<close>

definition autocompleteSearch_try :: "upstream \<Rightarrow> jsval \<Rightarrow> jsval \<Rightarrow> jsval \<Rightarrow> world \<Rightarrow> (js_error + jsval) \<times> world" where
  "autocompleteSearch_try net expression maxResults region w =
     (if \<not> truthy expression then (Inr (Arr []), w)
      else
        (case str_method ''expression.trim'' trim expression of
           Inl e \<Rightarrow> (Inl e, w)
         | Inr te \<Rightarrow>
             if length te < 2 then (Inr (Arr []), w)
             else
               (case str_method ''expression.toLowerCase'' toLowerCase expression of
                  Inl e \<Rightarrow> (Inl e, w)
                | Inr le \<Rightarrow>
               (let cacheKey = autocomplete_key le maxResults region;
                    cachedSuggestions = getCachedResponse cacheKey w
                in if truthy cachedSuggestions then (Inr cachedSuggestions, w)
                   else
                     (case getAccessToken net w of
                        (Inl e, w1) \<Rightarrow> (Inl e, w1)
                      | (Inr accessToken, w1) \<Rightarrow>
                          (case fetch net (apiRequest accessToken (autocomplete_params te maxResults region)) w1 of
                             (Rejected msg, w2) \<Rightarrow> (Inl (Error msg), w2)
                           | (Response status body, w2) \<Rightarrow>
                               if \<not> ok status
                               then (Inl (Error (''Failed to get autocomplete suggestions: '' @ natToString status)), w2)
                               else
                                 (case body of
                                    Inl msg \<Rightarrow> (Inl (Error msg), w2)
                                  | Inr responseData \<Rightarrow>
                                      (case get_prop responseData ''suggestions'' of
                                         Inl e \<Rightarrow> (Inl e, w2)
                                       | Inr suggestions_field \<Rightarrow>
                                           if \<not> truthy suggestions_field
                                              \<or> \<not> truthy (js_prop suggestions_field ''suggestion'')
                                           then (Inr (Arr []), w2)
                                           else
                                             (let suggestions = as_list (js_prop suggestions_field ''suggestion'')
                                              in (Inr suggestions,
                                                  cacheResponse cacheKey suggestions (Num (Fin 900)) w2))))))))))"

text \<open>\<open>autocompleteSearch\<close> (lines 299 to 372): the \<open>catch\<close> block returns the empty list.\<close>

definition autocompleteSearch :: "upstream \<Rightarrow> jsval \<Rightarrow> jsval \<Rightarrow> jsval \<Rightarrow> world \<Rightarrow> (js_error + jsval) \<times> world" where
  "autocompleteSearch net expression maxResults region w =
     (case autocompleteSearch_try net expression
             (default_param maxResults (Num (Fin 4))) (default_param region Null) w of
        (Inl e, w') \<Rightarrow> (Inr (Arr []), w')
      | (Inr v, w') \<Rightarrow> (Inr v, w'))"

section \<open>The orchestrator\<close>

definition nutrition_key :: "string \<Rightarrow> string" where
  "nutrition_key ll = ''fatsecret_nutrition_'' @ trim ll"

text \<open>The \<open>try\<close> block of \<open>getNutritionFromFatSecret\<close> (lines 254 to 285).\<close>

definition getNutritionFromFatSecret_try :: "upstream \<Rightarrow> jsval \<Rightarrow> world \<Rightarrow> (js_error + jsval) \<times> world" where
  "getNutritionFromFatSecret_try net foodLabel w =
     (if \<not> truthy foodLabel then (Inr Null, w)
      else
        (case str_method ''foodLabel.toLowerCase'' toLowerCase foodLabel of
           Inl e \<Rightarrow> (Inl e, w)
         | Inr ll \<Rightarrow>
             (let cacheKey = nutrition_key ll;
                  cachedNutrition = getCachedResponse cacheKey w
              in if truthy cachedNutrition then (Inr cachedNutrition, w)
                 else
                   (case searchFoods net foodLabel Undefined w of
                      (Inl e, w1) \<Rightarrow> (Inl e, w1)
                    | (Inr searchResults, w1) \<Rightarrow>
                        if \<not> truthy searchResults \<or> js_prop searchResults ''length'' = Num (Fin 0)
                        then (Inr Null, w1)
                        else
                          (case get_prop (elem0 searchResults) ''food_id'' of
                             Inl e \<Rightarrow> (Inl e, w1)
                           | Inr foodId \<Rightarrow>
                               (case getFoodDetails net foodId w1 of
                                  (Inl e, w2) \<Rightarrow> (Inl e, w2)
                                | (Inr foodDetails, w2) \<Rightarrow>
                                    (case standardizeNutritionData foodDetails of
                                       Inl e \<Rightarrow> (Inl e, w2)
                                     | Inr nutritionData \<Rightarrow>
                                         (Inr (nutrition_value nutritionData),
                                          cacheResponse cacheKey (nutrition_value nutritionData)
                                            (Num (Fin 86400)) w2))))))))"

text \<open>\<open>getNutritionFromFatSecret\<close> (lines 252 to 290): the \<open>catch\<close> block returns \<open>null\<close>.\<close>

definition getNutritionFromFatSecret :: "upstream \<Rightarrow> jsval \<Rightarrow> world \<Rightarrow> (js_error + jsval) \<times> world" where
  "getNutritionFromFatSecret net foodLabel w =
     (case getNutritionFromFatSecret_try net foodLabel w of
        (Inl e, w') \<Rightarrow> (Inr Null, w')
      | (Inr v, w') \<Rightarrow> (Inr v, w'))"

section \<open>The exposed operations\<close>

text \<open>
  The \<open>catch\<close> block shared by the three handlers: it logs the required argument, read from
  \<open>data\<close> again, and throws an \<open>internal\<close> error with the message of the error it caught.
\<close>

definition handler_catch :: "jsval \<Rightarrow> string \<Rightarrow> string \<Rightarrow> js_error \<Rightarrow> js_error" where
  "handler_catch data field message error =
     (case get_prop data field of
        Inl e \<Rightarrow> e
      | Inr v \<Rightarrow> HttpsError ''internal'' message (Str (error_message error)))"

definition quoted :: "string \<Rightarrow> string" where
  "quoted s = [CHR 0x22] @ s @ [CHR 0x22]"

text \<open>The \<open>try\<close> block of \<open>searchFatSecretNutrition\<close> (lines 19 to 49 of the handlers).\<close>

definition searchFatSecretNutrition_try :: "upstream \<Rightarrow> jsval \<Rightarrow> world \<Rightarrow> (js_error + jsval) \<times> world" where
  "searchFatSecretNutrition_try net data w =
     (case get_prop data ''foodName'' of
        Inl e \<Rightarrow> (Inl e, w)
      | Inr name \<Rightarrow>
          if \<not> truthy name
          then (Inl (HttpsError ''invalid-argument'' ''Missing food name to search'' Undefined), w)
          else
            (case str_method ''data.foodName.trim'' trim name of
               Inl e \<Rightarrow> (Inl e, w)
             | Inr searchTerm \<Rightarrow>
                 (case getNutritionFromFatSecret net (Str searchTerm) w of
                    (Inl e, w1) \<Rightarrow> (Inl e, w1)
                  | (Inr nutritionData, w1) \<Rightarrow>
                      if \<not> truthy nutritionData
                      then (Inr (Obj [(''success'', Bool False),
                                      (''message'', Str (''No nutrition data found for '' @ quoted searchTerm)),
                                      (''source'', Str ''FatSecret'')]), w1)
                      else (Inr (Obj [(''success'', Bool True),
                                      (''source'', Str ''FatSecret''),
                                      (''nutritionData'', nutritionData),
                                      (''message'', Str (''Found nutrition data for '' @ quoted searchTerm
                                                         @ '' from FatSecret''))]), w1))))"

definition searchFatSecretNutrition :: "upstream \<Rightarrow> jsval \<Rightarrow> world \<Rightarrow> (js_error + jsval) \<times> world" where
  "searchFatSecretNutrition net data w =
     (case searchFatSecretNutrition_try net data w of
        (Inl e, w') \<Rightarrow> (Inl (handler_catch data ''foodName'' ''Error searching for nutrition data'' e), w')
      | (Inr v, w') \<Rightarrow> (Inr v, w'))"

text \<open>The \<open>try\<close> block of \<open>getFatSecretFoodDetails\<close> (lines 72 to 105).\<close>

definition getFatSecretFoodDetails_try :: "upstream \<Rightarrow> jsval \<Rightarrow> world \<Rightarrow> (js_error + jsval) \<times> world" where
  "getFatSecretFoodDetails_try net data w =
     (case get_prop data ''foodId'' of
        Inl e \<Rightarrow> (Inl e, w)
      | Inr foodId \<Rightarrow>
          if \<not> truthy foodId
          then (Inl (HttpsError ''invalid-argument'' ''Missing food ID'' Undefined), w)
          else
            (case getFoodDetails net foodId w of
               (Inl e, w1) \<Rightarrow> (Inl e, w1)
             | (Inr foodDetails, w1) \<Rightarrow>
                 if \<not> truthy foodDetails
                 then (Inr (Obj [(''success'', Bool False),
                                 (''message'', Str (''No food details found for ID '' @ quoted (ToString foodId))),
                                 (''source'', Str ''FatSecret'')]), w1)
                 else
                   (case standardizeNutritionData foodDetails of
                      Inl e \<Rightarrow> (Inl e, w1)
                    | Inr nutritionData \<Rightarrow>
                        (Inr (Obj [(''success'', Bool True),
                                   (''foodDetails'', foodDetails),
                                   (''nutritionData'', nutrition_value nutritionData),
                                   (''source'', Str ''FatSecret''),
                                   (''message'', Str (''Found food details for ID '' @ quoted (ToString foodId)
                                                      @ '' from FatSecret''))]), w1))))"

text \<open>
  \<open>getFatSecretFoodDetails\<close> (lines 68 to 114): \<open>data\<close> is taken out of the request before
  the \<open>try\<close> block.
\<close>

definition getFatSecretFoodDetails :: "upstream \<Rightarrow> jsval \<Rightarrow> world \<Rightarrow> (js_error + jsval) \<times> world" where
  "getFatSecretFoodDetails net request w =
     (case get_prop request ''data'' of
        Inl e \<Rightarrow> (Inl e, w)
      | Inr data \<Rightarrow>
          (case getFatSecretFoodDetails_try net data w of
             (Inl e, w') \<Rightarrow> (Inl (handler_catch data ''foodId'' ''Error getting food details'' e), w')
           | (Inr v, w') \<Rightarrow> (Inr v, w')))"

text \<open>The \<open>try\<close> block of \<open>getAutocompleteSuggestions\<close> (lines 129 to 151).\<close>

definition getAutocompleteSuggestions_try :: "upstream \<Rightarrow> jsval \<Rightarrow> world \<Rightarrow> (js_error + jsval) \<times> world" where
  "getAutocompleteSuggestions_try net data w =
     (case get_prop data ''query'' of
        Inl e \<Rightarrow> (Inl e, w)
      | Inr query \<Rightarrow>
          if \<not> truthy query
          then (Inl (HttpsError ''invalid-argument'' ''Missing search query'' Undefined), w)
          else
            (case str_method ''data.query.trim'' trim query of
               Inl e \<Rightarrow> (Inl e, w)
             | Inr searchQuery \<Rightarrow>
                 (let maxResults = js_or (js_prop data ''maxResults'') (Num (Fin 4));
                      region = js_or (js_prop data ''region'') Null
                  in case autocompleteSearch net (Str searchQuery) maxResults region w of
                       (Inl e, w1) \<Rightarrow> (Inl e, w1)
                     | (Inr suggestions, w1) \<Rightarrow>
                         (case get_prop suggestions ''length'' of
                            Inl e \<Rightarrow> (Inl e, w1)
                          | Inr n \<Rightarrow>
                              (Inr (Obj [(''success'', Bool True),
                                         (''suggestions'', suggestions),
                                         (''message'', Str (''Found '' @ ToString n
                                            @ '' autocomplete suggestions for '' @ quoted searchQuery))]),
                               w1)))))"

definition getAutocompleteSuggestions :: "upstream \<Rightarrow> jsval \<Rightarrow> world \<Rightarrow> (js_error + jsval) \<times> world" where
  "getAutocompleteSuggestions net request w =
     (case get_prop request ''data'' of
        Inl e \<Rightarrow> (Inl e, w)
      | Inr data \<Rightarrow>
          (case getAutocompleteSuggestions_try net data w of
             (Inl e, w') \<Rightarrow> (Inl (handler_catch data ''query'' ''Error getting autocomplete suggestions'' e), w')
           | (Inr v, w') \<Rightarrow> (Inr v, w')))"

section \<open>Outcomes of the upstream calls\<close>

text \<open>The upstream search of a call succeeded with a repeated field that is present.\<close>

definition search_success :: "upstream \<Rightarrow> string \<Rightarrow> jsval \<Rightarrow> world \<Rightarrow> jsval \<Rightarrow> bool" where
  "search_success net s maxResults w field =
     (\<exists>accessToken w1 status searchData.
        getAccessToken net w = (Inr accessToken, w1) \<and> maxResults \<noteq> Null
        \<and> fst (net w1 (searchRequest accessToken (Str s) (ToString (default_param maxResults (Num (Fin 3))))))
            = Response status (Inr searchData)
        \<and> ok status
        \<and> field = js_prop (js_prop searchData ''foods'') ''food''
        \<and> truthy field)"

section \<open>The states a process reaches\<close>

text \<open>
  The cache is kept in the process, and the keys of this module are written by this module
  only. A process starts with an empty cache and nothing sent, whatever its environment and
  its clock. Then time passes, and the functions of the module and the handlers run, each
  against any upstream. Nothing in the module assigns the process environment.
\<close>

inductive reachable :: "world \<Rightarrow> bool" where
  start: "cache w = Map.empty \<Longrightarrow> sent w = [] \<Longrightarrow> reachable w"
| elapse: "reachable w \<Longrightarrow> clock w \<le> t \<Longrightarrow> reachable (w\<lparr> clock := t \<rparr>)"
| token: "reachable w \<Longrightarrow> reachable (snd (getAccessToken net w))"
| search: "reachable w \<Longrightarrow> reachable (snd (searchFoods net query maxResults w))"
| details: "reachable w \<Longrightarrow> reachable (snd (getFoodDetails net foodId w))"
| nutrition: "reachable w \<Longrightarrow> reachable (snd (getNutritionFromFatSecret net foodLabel w))"
| autocomplete: "reachable w \<Longrightarrow> reachable (snd (autocompleteSearch net expression maxResults region w))"
| nutrition_handler: "reachable w \<Longrightarrow> reachable (snd (searchFatSecretNutrition net data w))"
| details_handler: "reachable w \<Longrightarrow> reachable (snd (getFatSecretFoodDetails net request w))"
| autocomplete_handler: "reachable w \<Longrightarrow> reachable (snd (getAutocompleteSuggestions net request w))"


section \<open>Sample worlds\<close>

text \<open>A process that has just started: nothing cached, nothing sent, no credentials set.\<close>

definition fresh_world :: world where
  "fresh_world = \<lparr> cache = Map.empty, clock = 0, env = Map.empty, sent = [] \<rparr>"

text \<open>An upstream that cannot be reached.\<close>

definition no_network :: upstream where
  "no_network w r = (Rejected ''network down'', 0)"

text \<open>
  A process with credentials; a token response; an upstream that grants that token to
  every request; an upstream that refuses every request.
\<close>

definition configured_world :: world where
  "configured_world =
     fresh_world\<lparr> env := [''FATSECRET_CLIENT_ID'' \<mapsto> ''id'', ''FATSECRET_CLIENT_SECRET'' \<mapsto> ''secret''] \<rparr>"

definition sample_token :: jsval where
  "sample_token =
     Obj [(''access_token'', Str ''abc''), (''token_type'', Str ''Bearer''), (''expires_in'', Num (Fin 3600))]"

definition token_upstream :: upstream where
  "token_upstream w r = (Response 200 (Inr sample_token), 5)"


text \<open>
  Three detail payloads: one with two servings, the first of which has \<open>fiber: "3.2"\<close>, no
  \<open>sugar\<close> and a protein value that is not a number; one whose \<open>sugar\<close> is not a number; one
  whose serving has the number 0 as its \<open>fiber\<close>.
\<close>

definition kale_food :: jsval where
  "kale_food =
     Obj [(''food_name'', Str ''Kale''),
          (''servings'', Obj [(''serving'',
             Arr [Obj [(''serving_description'', Str ''1 cup''), (''calories'', Str ''49''),
                       (''protein'', Str ''n/a''), (''fiber'', Str ''3.2'')],
                  Obj [(''serving_description'', Str ''100 g''), (''calories'', Str ''35''),
                       (''sugar'', Str ''1'')]])])]"

definition candy_food :: jsval where
  "candy_food =
     Obj [(''food_name'', Str ''Candy''),
          (''servings'', Obj [(''serving'', Obj [(''calories'', Str ''400''), (''sugar'', Str ''abc'')])])]"

definition water_food :: jsval where
  "water_food =
     Obj [(''food_name'', Str ''Water''),
          (''servings'', Obj [(''serving'', Obj [(''calories'', Str ''0''), (''fiber'', Num (Fin 0))])])]"

text \<open>
  A process with credentials and an unexpired token in its cache; a search result; an upstream
  that serves the token, the search, the detail and the autocomplete requests; an upstream
  whose search response carries an empty array.
\<close>

definition warm_world :: world where
  "warm_world =
     configured_world\<lparr> cache := [TOKEN_CACHE_KEY \<mapsto>
       \<lparr> entry_value = Obj [(''access_token'', Str ''abc''), (''expires_in'', Num (Fin 3600)),
                            (''expires_at'', Num (Fin 3540000))],
         expiresAt = Fin 3600000 \<rparr>] \<rparr>"

definition kale_summary :: jsval where
  "kale_summary = Obj [(''food_id'', Str ''35718''), (''food_name'', Str ''Kale'')]"

definition sample_upstream :: upstream where
  "sample_upstream w r =
     (case r of Request url headers params \<Rightarrow>
        if url = FATSECRET_TOKEN_URL then (Response 200 (Inr sample_token), 5)
        else if map_of params ''method'' = Some ''foods.search''
          then (Response 200 (Inr (Obj [(''foods'', Obj [(''food'', kale_summary)])])), 5)
        else if map_of params ''method'' = Some ''food.get.v2''
          then (Response 200 (Inr (Obj [(''food'', kale_food)])), 5)
        else (Response 200 (Inr (Obj [(''suggestions'', Obj [(''suggestion'', Str ''kale'')])])), 5))"

definition empty_list_upstream :: upstream where
  "empty_list_upstream w r = (Response 200 (Inr (Obj [(''foods'', Obj [(''food'', Arr [])])])), 5)"

text \<open>An upstream whose responses carry the same object in both repeated fields.\<close>

definition twin_upstream :: upstream where
  "twin_upstream w r =
     (Response 200 (Inr (Obj [(''foods'', Obj [(''food'', kale_summary)]),
                              (''suggestions'', Obj [(''suggestion'', kale_summary)])])), 5)"

text \<open>
  The state of the process with credentials after a first token grant, and after a first
  autocomplete call for \<open>Kale\<close>, both served by the sample upstream.
\<close>

definition kale_world :: world where
  "kale_world = snd (autocompleteSearch sample_upstream (Str ''Kale'') Undefined Undefined configured_world)"

definition granted_world :: world where
  "granted_world = snd (getAccessToken sample_upstream configured_world)"

section \<open>Properties\<close>

subsection \<open>Strings\<close>

text \<open>
  The no-break space is trimmed as the tab is, and the letters of the Latin-1 range are
  lower-cased; the multiplication sign and the sharp s are their own lower case.
\<close>

lemma trim_no_break_space:
  "trim [char_of (160 :: nat), CHR ''a'', char_of (9 :: nat), char_of (160 :: nat)] = ''a''"
  by code_simp

lemma toLowerCase_latin1:
  "toLowerCase [char_of (201 :: nat), CHR ''T'', char_of (215 :: nat), char_of (223 :: nat)]
     = [char_of (233 :: nat), CHR ''t'', char_of (215 :: nat), char_of (223 :: nat)]"
  by code_simp

subsection \<open>The exposed operations\<close>

text \<open>
  C1. An exposed operation that is invoked without its required argument throws its
  \<open>invalid-argument\<close> error inside its own \<open>try\<close> block, so its \<open>catch\<close> block turns that error
  into an \<open>internal\<close> one whose details are the message of the validation error: the caller of
  \<open>searchFatSecretNutrition\<close>, \<open>getFatSecretFoodDetails\<close> and \<open>getAutocompleteSuggestions\<close> is
  signalled \<open>internal\<close>, not \<open>invalid-argument\<close>, and nothing is sent or cached.
\<close>

theorem required_argument_absent_internal:
  "searchFatSecretNutrition net (Obj []) w =
     (Inl (HttpsError ''internal'' ''Error searching for nutrition data''
            (Str ''Missing food name to search'')), w)
   \<and> getFatSecretFoodDetails net (Obj [(''data'', Obj [])]) w =
     (Inl (HttpsError ''internal'' ''Error getting food details'' (Str ''Missing food ID'')), w)
   \<and> getAutocompleteSuggestions net (Obj [(''data'', Obj [])]) w =
     (Inl (HttpsError ''internal'' ''Error getting autocomplete suggestions''
            (Str ''Missing search query'')), w)"
  by (simp add: searchFatSecretNutrition_def searchFatSecretNutrition_try_def
      getFatSecretFoodDetails_def getFatSecretFoodDetails_try_def
      getAutocompleteSuggestions_def getAutocompleteSuggestions_try_def
      handler_catch_def get_prop_def nullish_def)

subsection \<open>The normalizer\<close>

text \<open>
  C2. \<open>standardizeNutritionData\<close> reads \<open>food_name\<close> from its argument before its \<open>try\<close>
  block: on an absent payload (\<open>undefined\<close> or \<open>null\<close>) it throws a \<open>TypeError\<close> to its caller
  instead of returning the default record.
\<close>

theorem standardize_absent_payload_throws:
  "standardizeNutritionData Undefined =
     Inl (TypeError ''Cannot read properties of undefined (reading 'food_name')'')
   \<and> standardizeNutritionData Null =
     Inl (TypeError ''Cannot read properties of null (reading 'food_name')'')"
  by (simp add: standardizeNutritionData_def get_prop_def nullish_def cannot_read_def)

theorem standardize_absent_payload_throws_witness:
  "(\<exists>e. standardizeNutritionData Undefined = Inl e) \<and> (\<exists>e. standardizeNutritionData Null = Inl e)"
  using standardize_absent_payload_throws by simp

text \<open>On every other payload it returns a record.\<close>

lemma standardize_returns:
  "\<not> nullish v \<Longrightarrow> \<exists>n. standardizeNutritionData v = Inr n"
  by (simp add: standardizeNutritionData_def get_prop_def Let_def)

lemma micro_keys:
  "fst ` set (micro serving src dst m) = (if truthy (js_prop serving src) then {dst} else {}) \<union> fst ` set m"
  by (simp add: micro_def dom_update)

lemma micro_value:
  "map_of (micro serving src dst m) k =
     (if truthy (js_prop serving src) \<and> k = dst then Some (parseFloat (js_prop serving src)) else map_of m k)"
  by (simp add: micro_def update_conv)

lemma parseFloat_Undefined: "parseFloat Undefined = NaN"
  by (simp add: strToFloat_def parse_decimal_def is_ws_def is_digit_def)

lemma float_or0_unparsable: "parseFloat x = NaN \<Longrightarrow> float_or0 x = Fin 0"
  by (simp add: float_or0_def)

lemma float_or0_absent: "float_or0 Undefined = Fin 0"
  using float_or0_unparsable [OF parseFloat_Undefined] .

lemma standardize_serving:
  assumes "\<not> nullish v"
    and "truthy (js_prop v ''servings'')"
    and "truthy (js_prop (js_prop v ''servings'') ''serving'')"
    and "serving = first_serving (js_prop (js_prop v ''servings'') ''serving'')"
    and "\<not> nullish serving"
  shows "standardizeNutritionData v = Inr
     \<lparr> calories = float_or0 (js_prop serving ''calories''),
       protein = float_or0 (js_prop serving ''protein''),
       fat = float_or0 (js_prop serving ''fat''),
       carbohydrates = float_or0 (js_prop serving ''carbohydrate''),
       foodName = js_or (js_prop v ''food_name'') (Str ''Unknown Food''),
       source = ''FatSecret'',
       servingSize = js_or (js_prop serving ''serving_description'') (Str ''100g''),
       microNutrients =
         micro serving ''saturated_fat'' ''saturatedFat''
           (micro serving ''cholesterol'' ''cholesterol''
             (micro serving ''potassium'' ''potassium''
               (micro serving ''sodium'' ''sodium''
                 (micro serving ''sugar'' ''sugar''
                   (micro serving ''fiber'' ''fiber'' []))))) \<rparr>"
  using assms by (simp add: standardizeNutritionData_def get_prop_def Let_def)

lemma micro_subset:
  "fst ` set m \<subseteq> A \<Longrightarrow> dst \<in> A \<Longrightarrow> fst ` set (micro serving src dst m) \<subseteq> A"
  by (simp add: micro_keys)

lemma parseFloat_samples:
  "parseFloat (Str ''3.2'') = Fin (16 / 5)"
  "parseFloat (Str ''n/a'') = NaN"
  by (simp_all add: strToFloat_def parse_decimal_def is_ws_def is_digit_def
      parse_exponent_def scale10_def digits_val_def digit_val_def)

lemma first_serving_cases:
  "first_serving (Arr (x # rest)) = x"
  "(\<forall>xs. ss \<noteq> Arr xs) \<Longrightarrow> first_serving ss = ss"
  by (auto simp add: first_serving_def split: jsval.splits)

lemma micro_member:
  "(k \<in> fst ` set (micro serving src dst m)) = ((truthy (js_prop serving src) \<and> k = dst) \<or> k \<in> fst ` set m)"
  by (auto simp add: micro_keys)

lemma parseFloat_49: "parseFloat (Str ''49'') = Fin 49"
  by (simp add: strToFloat_def parse_decimal_def is_ws_def is_digit_def
      parse_exponent_def scale10_def digits_val_def digit_val_def)

text \<open>
  C3. Take a detail payload with a first serving: the \<open>serving\<close> member itself when it is
  not an array, the first element when it is one. The \<open>microNutrients\<close> map of the result
  has no key outside \<open>fiber\<close>, \<open>sugar\<close>, \<open>sodium\<close>, \<open>potassium\<close>, \<open>cholesterol\<close> and
  \<open>saturatedFat\<close>, and it has each of these exactly when the value of the source member
  (\<open>saturated_fat\<close> for \<open>saturatedFat\<close>) is truthy; a micronutrient whose value parses to a
  number is bound to that number. Each of \<open>calories\<close>, \<open>protein\<close>, \<open>fat\<close> and
  \<open>carbohydrates\<close> is 0 when its source member is absent or does not parse to a number, and
  the parsed number otherwise.
\<close>

theorem micronutrients_of_first_serving:
  assumes "\<not> nullish v"
    and "truthy (js_prop v ''servings'')"
    and "(\<exists>rest. js_prop (js_prop v ''servings'') ''serving'' = Arr (serving # rest))
         \<or> (truthy (js_prop (js_prop v ''servings'') ''serving'')
              \<and> (\<forall>xs. js_prop (js_prop v ''servings'') ''serving'' \<noteq> Arr xs)
              \<and> serving = js_prop (js_prop v ''servings'') ''serving'')"
    and "\<not> nullish serving"
  shows "\<exists>n. standardizeNutritionData v = Inr n
    \<and> fst ` set (microNutrients n)
         \<subseteq> {''fiber'', ''sugar'', ''sodium'', ''potassium'', ''cholesterol'', ''saturatedFat''}
    \<and> (''fiber'' \<in> fst ` set (microNutrients n)) = truthy (js_prop serving ''fiber'')
    \<and> (''sugar'' \<in> fst ` set (microNutrients n)) = truthy (js_prop serving ''sugar'')
    \<and> (''sodium'' \<in> fst ` set (microNutrients n)) = truthy (js_prop serving ''sodium'')
    \<and> (''potassium'' \<in> fst ` set (microNutrients n)) = truthy (js_prop serving ''potassium'')
    \<and> (''cholesterol'' \<in> fst ` set (microNutrients n)) = truthy (js_prop serving ''cholesterol'')
    \<and> (''saturatedFat'' \<in> fst ` set (microNutrients n)) = truthy (js_prop serving ''saturated_fat'')
    \<and> (truthy (js_prop serving ''fiber'') \<and> parseFloat (js_prop serving ''fiber'') \<noteq> NaN
          \<longrightarrow> map_of (microNutrients n) ''fiber'' = Some (parseFloat (js_prop serving ''fiber'')))
    \<and> (truthy (js_prop serving ''sugar'') \<and> parseFloat (js_prop serving ''sugar'') \<noteq> NaN
          \<longrightarrow> map_of (microNutrients n) ''sugar'' = Some (parseFloat (js_prop serving ''sugar'')))
    \<and> (truthy (js_prop serving ''sodium'') \<and> parseFloat (js_prop serving ''sodium'') \<noteq> NaN
          \<longrightarrow> map_of (microNutrients n) ''sodium'' = Some (parseFloat (js_prop serving ''sodium'')))
    \<and> (truthy (js_prop serving ''potassium'') \<and> parseFloat (js_prop serving ''potassium'') \<noteq> NaN
          \<longrightarrow> map_of (microNutrients n) ''potassium'' = Some (parseFloat (js_prop serving ''potassium'')))
    \<and> (truthy (js_prop serving ''cholesterol'') \<and> parseFloat (js_prop serving ''cholesterol'') \<noteq> NaN
          \<longrightarrow> map_of (microNutrients n) ''cholesterol'' = Some (parseFloat (js_prop serving ''cholesterol'')))
    \<and> (truthy (js_prop serving ''saturated_fat'') \<and> parseFloat (js_prop serving ''saturated_fat'') \<noteq> NaN
          \<longrightarrow> map_of (microNutrients n) ''saturatedFat'' = Some (parseFloat (js_prop serving ''saturated_fat'')))
    \<and> (js_prop serving ''calories'' = Undefined \<or> parseFloat (js_prop serving ''calories'') = NaN
          \<longrightarrow> calories n = Fin 0)
    \<and> (js_prop serving ''protein'' = Undefined \<or> parseFloat (js_prop serving ''protein'') = NaN
          \<longrightarrow> protein n = Fin 0)
    \<and> (js_prop serving ''fat'' = Undefined \<or> parseFloat (js_prop serving ''fat'') = NaN
          \<longrightarrow> fat n = Fin 0)
    \<and> (js_prop serving ''carbohydrate'' = Undefined \<or> parseFloat (js_prop serving ''carbohydrate'') = NaN
          \<longrightarrow> carbohydrates n = Fin 0)
    \<and> (parseFloat (js_prop serving ''calories'') \<noteq> NaN
          \<longrightarrow> calories n = parseFloat (js_prop serving ''calories''))
    \<and> (parseFloat (js_prop serving ''protein'') \<noteq> NaN
          \<longrightarrow> protein n = parseFloat (js_prop serving ''protein''))
    \<and> (parseFloat (js_prop serving ''fat'') \<noteq> NaN
          \<longrightarrow> fat n = parseFloat (js_prop serving ''fat''))
    \<and> (parseFloat (js_prop serving ''carbohydrate'') \<noteq> NaN
          \<longrightarrow> carbohydrates n = parseFloat (js_prop serving ''carbohydrate''))"
proof -
  let ?m = "micro serving ''saturated_fat'' ''saturatedFat''
           (micro serving ''cholesterol'' ''cholesterol''
             (micro serving ''potassium'' ''potassium''
               (micro serving ''sodium'' ''sodium''
                 (micro serving ''sugar'' ''sugar''
                   (micro serving ''fiber'' ''fiber'' [])))))"
  from assms(3) have first: "serving = first_serving (js_prop (js_prop v ''servings'') ''serving'')"
    and field: "truthy (js_prop (js_prop v ''servings'') ''serving'')"
    by (auto simp add: first_serving_cases)
  note run = standardize_serving [OF assms(1,2) field first assms(4)]
  have keys: "fst ` set ?m \<subseteq> {''fiber'', ''sugar'', ''sodium'', ''potassium'', ''cholesterol'', ''saturatedFat''}"
    by (intro micro_subset) simp_all
  have k1: "(''fiber'' \<in> fst ` set ?m) = truthy (js_prop serving ''fiber'')"
    by (simp add: micro_member)
  have k2: "(''sugar'' \<in> fst ` set ?m) = truthy (js_prop serving ''sugar'')"
    by (simp add: micro_member)
  have k3: "(''sodium'' \<in> fst ` set ?m) = truthy (js_prop serving ''sodium'')"
    by (simp add: micro_member)
  have k4: "(''potassium'' \<in> fst ` set ?m) = truthy (js_prop serving ''potassium'')"
    by (simp add: micro_member)
  have k5: "(''cholesterol'' \<in> fst ` set ?m) = truthy (js_prop serving ''cholesterol'')"
    by (simp add: micro_member)
  have k6: "(''saturatedFat'' \<in> fst ` set ?m) = truthy (js_prop serving ''saturated_fat'')"
    by (simp add: micro_member)
  have v1: "map_of ?m ''fiber'' = Some (parseFloat (js_prop serving ''fiber''))"
    if "truthy (js_prop serving ''fiber'') \<and> parseFloat (js_prop serving ''fiber'') \<noteq> NaN"
    using that by (simp add: micro_value)
  have v2: "map_of ?m ''sugar'' = Some (parseFloat (js_prop serving ''sugar''))"
    if "truthy (js_prop serving ''sugar'') \<and> parseFloat (js_prop serving ''sugar'') \<noteq> NaN"
    using that by (simp add: micro_value)
  have v3: "map_of ?m ''sodium'' = Some (parseFloat (js_prop serving ''sodium''))"
    if "truthy (js_prop serving ''sodium'') \<and> parseFloat (js_prop serving ''sodium'') \<noteq> NaN"
    using that by (simp add: micro_value)
  have v4: "map_of ?m ''potassium'' = Some (parseFloat (js_prop serving ''potassium''))"
    if "truthy (js_prop serving ''potassium'') \<and> parseFloat (js_prop serving ''potassium'') \<noteq> NaN"
    using that by (simp add: micro_value)
  have v5: "map_of ?m ''cholesterol'' = Some (parseFloat (js_prop serving ''cholesterol''))"
    if "truthy (js_prop serving ''cholesterol'') \<and> parseFloat (js_prop serving ''cholesterol'') \<noteq> NaN"
    using that by (simp add: micro_value)
  have v6: "map_of ?m ''saturatedFat'' = Some (parseFloat (js_prop serving ''saturated_fat''))"
    if "truthy (js_prop serving ''saturated_fat'') \<and> parseFloat (js_prop serving ''saturated_fat'') \<noteq> NaN"
    using that by (simp add: micro_value)
  have zero: "float_or0 x = Fin 0" if "x = Undefined \<or> parseFloat x = NaN" for x
    using that float_or0_absent float_or0_unparsable by blast
  have parsed: "float_or0 x = parseFloat x" if "parseFloat x \<noteq> NaN" for x
    using that by (simp add: float_or0_def)
  show ?thesis
    apply (rule exI)
    apply (rule conjI, rule run)
    apply (simp only: nutrition.simps)
    apply (intro conjI impI)
                    apply (rule keys)
                   apply (rule k1)
                  apply (rule k2)
                 apply (rule k3)
                apply (rule k4)
               apply (rule k5)
              apply (rule k6)
             apply (rule v1, assumption)
            apply (rule v2, assumption)
           apply (rule v3, assumption)
          apply (rule v4, assumption)
         apply (rule v5, assumption)
        apply (rule v6, assumption)
           apply (rule zero, assumption)
          apply (rule zero, assumption)
         apply (rule zero, assumption)
        apply (rule zero, assumption)
       apply (rule parsed, assumption)+
    done
qed


theorem micronutrients_of_first_serving_witness:
  "\<not> nullish kale_food
   \<and> truthy (js_prop kale_food ''servings'')
   \<and> js_prop (js_prop kale_food ''servings'') ''serving'' =
       Arr [Obj [(''serving_description'', Str ''1 cup''), (''calories'', Str ''49''),
                 (''protein'', Str ''n/a''), (''fiber'', Str ''3.2'')],
            Obj [(''serving_description'', Str ''100 g''), (''calories'', Str ''35''),
                 (''sugar'', Str ''1'')]]
   \<and> (\<exists>n. standardizeNutritionData kale_food = Inr n
         \<and> map_of (microNutrients n) ''fiber'' = Some (Fin (16 / 5))
         \<and> ''sugar'' \<notin> fst ` set (microNutrients n)
         \<and> calories n = Fin 49
         \<and> protein n = Fin 0
         \<and> fat n = Fin 0)"
proof -
  let ?serving = "Obj [(''serving_description'', Str ''1 cup''), (''calories'', Str ''49''),
                 (''protein'', Str ''n/a''), (''fiber'', Str ''3.2'')]"
  let ?rest = "[Obj [(''serving_description'', Str ''100 g''), (''calories'', Str ''35''),
                 (''sugar'', Str ''1'')]]"
  have sv: "js_prop (js_prop kale_food ''servings'') ''serving'' = Arr (?serving # ?rest)"
    by (simp add: kale_food_def)
  have h1: "\<not> nullish kale_food" by (simp add: kale_food_def nullish_def)
  have h2: "truthy (js_prop kale_food ''servings'')" by (simp add: kale_food_def)
  have h3: "(\<exists>rest. js_prop (js_prop kale_food ''servings'') ''serving'' = Arr (?serving # rest))
         \<or> (truthy (js_prop (js_prop kale_food ''servings'') ''serving'')
              \<and> (\<forall>xs. js_prop (js_prop kale_food ''servings'') ''serving'' \<noteq> Arr xs)
              \<and> ?serving = js_prop (js_prop kale_food ''servings'') ''serving'')"
    using sv by blast
  have h4: "\<not> nullish ?serving" by (simp add: nullish_def)
  have p: "js_prop ?serving ''fiber'' = Str ''3.2''" "js_prop ?serving ''sugar'' = Undefined"
    "js_prop ?serving ''protein'' = Str ''n/a''" "js_prop ?serving ''fat'' = Undefined"
    "js_prop ?serving ''calories'' = Str ''49''"
    by simp_all
  from micronutrients_of_first_serving [OF h1 h2 h3 h4]
  obtain n where n: "standardizeNutritionData kale_food = Inr n"
    and sugar: "(''sugar'' \<in> fst ` set (microNutrients n)) = truthy (js_prop ?serving ''sugar'')"
    and fiber: "truthy (js_prop ?serving ''fiber'') \<and> parseFloat (js_prop ?serving ''fiber'') \<noteq> NaN
          \<longrightarrow> map_of (microNutrients n) ''fiber'' = Some (parseFloat (js_prop ?serving ''fiber''))"
    and prot: "js_prop ?serving ''protein'' = Undefined \<or> parseFloat (js_prop ?serving ''protein'') = NaN
          \<longrightarrow> protein n = Fin 0"
    and fat: "js_prop ?serving ''fat'' = Undefined \<or> parseFloat (js_prop ?serving ''fat'') = NaN
          \<longrightarrow> fat n = Fin 0"
    and cal: "parseFloat (js_prop ?serving ''calories'') \<noteq> NaN
          \<longrightarrow> calories n = parseFloat (js_prop ?serving ''calories'')"
    by (elim exE conjE) (rule that; assumption)
  have "map_of (microNutrients n) ''fiber'' = Some (Fin (16 / 5))"
    using fiber by (simp only: p parseFloat_samples) simp
  moreover have "''sugar'' \<notin> fst ` set (microNutrients n)"
    using sugar by (simp only: p) simp
  moreover have "protein n = Fin 0"
    using prot by (simp only: p parseFloat_samples) simp
  moreover have "fat n = Fin 0"
    using fat by (simp only: p) simp
  moreover have "calories n = Fin 49"
    using cal by (simp only: p parseFloat_49) simp
  ultimately have "standardizeNutritionData kale_food = Inr n
         \<and> map_of (microNutrients n) ''fiber'' = Some (Fin (16 / 5))
         \<and> ''sugar'' \<notin> fst ` set (microNutrients n)
         \<and> calories n = Fin 49
         \<and> protein n = Fin 0
         \<and> fat n = Fin 0"
    using n by simp
  then have "\<exists>n. standardizeNutritionData kale_food = Inr n
         \<and> map_of (microNutrients n) ''fiber'' = Some (Fin (16 / 5))
         \<and> ''sugar'' \<notin> fst ` set (microNutrients n)
         \<and> calories n = Fin 49
         \<and> protein n = Fin 0
         \<and> fat n = Fin 0" ..
  with h1 h2 sv show ?thesis by (intro conjI)
qed

text \<open>
  Two payloads on which the normalizer does otherwise. A member that is present in the
  serving with a falsy value (here \<open>fiber: 0\<close>) is left out of \<open>microNutrients\<close>: lines 233
  to 238 test the value, not the presence of the key. And these lines lack the \<open>|| 0\<close> of
  lines 226 to 229: a truthy value that does not parse (here \<open>sugar: 'abc'\<close>) is stored as
  \<open>NaN\<close>, not as 0.
\<close>

theorem falsy_member_left_out_unparsable_is_NaN:
  "js_prop (first_serving (js_prop (js_prop water_food ''servings'') ''serving'')) ''fiber'' = Num (Fin 0)
   \<and> standardizeNutritionData water_food = Inr
     \<lparr> calories = Fin 0, protein = Fin 0, fat = Fin 0, carbohydrates = Fin 0,
       foodName = Str ''Water'', source = ''FatSecret'', servingSize = Str ''100g'',
       microNutrients = [] \<rparr>
   \<and> js_prop (first_serving (js_prop (js_prop candy_food ''servings'') ''serving'')) ''sugar'' = Str ''abc''
   \<and> parseFloat (Str ''abc'') = NaN
   \<and> standardizeNutritionData candy_food = Inr
     \<lparr> calories = Fin 400, protein = Fin 0, fat = Fin 0, carbohydrates = Fin 0,
       foodName = Str ''Candy'', source = ''FatSecret'', servingSize = Str ''100g'',
       microNutrients = [(''sugar'', NaN)] \<rparr>"
  by (simp add: standardizeNutritionData_def water_food_def candy_food_def get_prop_def nullish_def
      first_serving_def micro_def js_or_def float_or0_def strToFloat_def parse_decimal_def is_ws_def
      is_digit_def parse_exponent_def scale10_def digits_val_def digit_val_def)

subsection \<open>The token manager\<close>

lemma getAccessToken_hit:
  "token_valid (getCachedResponse TOKEN_CACHE_KEY w) w \<Longrightarrow>
   getAccessToken net w = (Inr (js_prop (getCachedResponse TOKEN_CACHE_KEY w) ''access_token''), w)"
  by (simp add: getAccessToken_def)

lemma getAccessToken_grant:
  "\<not> token_valid (getCachedResponse TOKEN_CACHE_KEY w) w \<Longrightarrow>
   truthy (getenv w ''FATSECRET_CLIENT_ID'') \<Longrightarrow> truthy (getenv w ''FATSECRET_CLIENT_SECRET'') \<Longrightarrow>
   net w (tokenRequest (getenv w ''FATSECRET_CLIENT_ID'') (getenv w ''FATSECRET_CLIENT_SECRET''))
     = (Response status (Inr tokenData), d) \<Longrightarrow>
   ok status \<Longrightarrow> \<not> nullish tokenData \<Longrightarrow>
   w1 = w\<lparr> clock := clock w + int d,
           sent := sent w @ [tokenRequest (getenv w ''FATSECRET_CLIENT_ID'') (getenv w ''FATSECRET_CLIENT_SECRET'')] \<rparr> \<Longrightarrow>
   getAccessToken net w =
     (Inr (js_prop tokenData ''access_token''),
      cacheResponse TOKEN_CACHE_KEY
        (Obj (AList.update ''expires_at''
           (Num (num_sub (num_add (now w1) (num_mul (ToNumber (js_prop tokenData ''expires_in'')) (Fin 1000))) (Fin 60000)))
           (spread tokenData)))
        (js_prop tokenData ''expires_in'') w1)"
  by (simp add: getAccessToken_def Let_def fetch_def get_prop_def)

lemma js_prop_update:
  "js_prop (Obj (AList.update k v al)) k' = (if k' = k then v else js_prop (Obj al) k')"
  by (simp add: update_conv)

lemma getAccessToken_miss_sends:
  "\<not> token_valid (getCachedResponse TOKEN_CACHE_KEY w) w \<Longrightarrow>
   truthy (getenv w ''FATSECRET_CLIENT_ID'') \<Longrightarrow> truthy (getenv w ''FATSECRET_CLIENT_SECRET'') \<Longrightarrow>
   sent (snd (getAccessToken net w)) =
     sent w @ [tokenRequest (getenv w ''FATSECRET_CLIENT_ID'') (getenv w ''FATSECRET_CLIENT_SECRET'')]"
  by (simp add: getAccessToken_def Let_def fetch_def cacheResponse_def
      split: fetch_result.splits sum.splits prod.splits)

lemma cache_cacheResponse:
  "cache (cacheResponse key v ttl w) =
     (cache w)(key \<mapsto> \<lparr> entry_value = v, expiresAt = num_add (now w) (num_mul (ToNumber ttl) (Fin 1000)) \<rparr>)"
  by (simp add: cacheResponse_def)

lemma world_cacheResponse [simp]:
  "clock (cacheResponse key v ttl w) = clock w"
  "sent (cacheResponse key v ttl w) = sent w"
  "env (cacheResponse key v ttl w) = env w"
  by (simp_all add: cacheResponse_def)



lemma env_getAccessToken: "env (snd (getAccessToken net w)) = env w"
  by (simp add: getAccessToken_def Let_def fetch_def cacheResponse_def
      split: fetch_result.splits sum.splits prod.splits)

lemma fresh_world_no_token: "getCachedResponse k fresh_world = Undefined"
  by (simp add: getCachedResponse_def fresh_world_def)

lemma configured_world_no_token: "getCachedResponse k configured_world = Undefined"
  by (simp add: getCachedResponse_def configured_world_def fresh_world_def)

lemma token_valid_Undefined: "\<not> token_valid Undefined w"
  by (simp add: token_valid_def)

lemma getenv_configured:
  "getenv configured_world ''FATSECRET_CLIENT_ID'' = Str ''id''"
  "getenv configured_world ''FATSECRET_CLIENT_SECRET'' = Str ''secret''"
  by (simp_all add: getenv_def configured_world_def)

text \<open>
  C5. A grant whose response carries \<open>expires_in = e\<close> (in seconds) stores the token with
  \<open>expires_at = now + 1000 e - 60000\<close> milliseconds, \<open>now\<close> being the clock when the
  response has arrived. While that entry is the cached one, a call before \<open>expires_at\<close>
  returns the same token and leaves the world as it is, so no request is sent; a call at or
  after \<open>expires_at\<close>, with the credentials set, sends a new grant request.
\<close>

theorem token_cached_until_expiry:
  assumes miss: "\<not> token_valid (getCachedResponse TOKEN_CACHE_KEY w) w"
    and cid: "truthy (getenv w ''FATSECRET_CLIENT_ID'')"
    and cs: "truthy (getenv w ''FATSECRET_CLIENT_SECRET'')"
    and grant: "net w (tokenRequest (getenv w ''FATSECRET_CLIENT_ID'') (getenv w ''FATSECRET_CLIENT_SECRET''))
                  = (Response status (Inr tokenData), d)"
    and status: "ok status"
    and expires_in: "js_prop tokenData ''expires_in'' = Num (Fin e)"
    and first: "getAccessToken net w = (r1, w1)"
  shows "r1 = Inr (js_prop tokenData ''access_token'')
    \<and> clock w1 = clock w + int d
    \<and> (\<exists>tk ce. cache w1 TOKEN_CACHE_KEY = Some \<lparr> entry_value = tk, expiresAt = ce \<rparr>
          \<and> js_prop tk ''expires_at'' = Num (Fin (of_int (clock w1) + e * 1000 - 60000)))
    \<and> (\<forall>net2 w2. cache w2 TOKEN_CACHE_KEY = cache w1 TOKEN_CACHE_KEY
          \<and> of_int (clock w2) < of_int (clock w1) + e * 1000 - 60000
          \<longrightarrow> getAccessToken net2 w2 = (r1, w2))
    \<and> (\<forall>net2 w2. cache w2 TOKEN_CACHE_KEY = cache w1 TOKEN_CACHE_KEY
          \<and> of_int (clock w1) + e * 1000 - 60000 \<le> of_int (clock w2)
          \<and> truthy (getenv w2 ''FATSECRET_CLIENT_ID'') \<and> truthy (getenv w2 ''FATSECRET_CLIENT_SECRET'')
          \<longrightarrow> sent (snd (getAccessToken net2 w2)) =
                sent w2 @ [tokenRequest (getenv w2 ''FATSECRET_CLIENT_ID'') (getenv w2 ''FATSECRET_CLIENT_SECRET'')])"
proof -
  let ?req = "tokenRequest (getenv w ''FATSECRET_CLIENT_ID'') (getenv w ''FATSECRET_CLIENT_SECRET'')"
  let ?wf = "w\<lparr> clock := clock w + int d, sent := sent w @ [?req] \<rparr>"
  let ?at = "Fin (of_int (clock w + int d) + e * 1000 - 60000)"
  let ?tk = "Obj (AList.update ''expires_at'' (Num ?at) (spread tokenData))"
  obtain kvs where obj: "tokenData = Obj kvs"
    using expires_in by (cases tokenData) (auto split: if_splits)
  then have nn: "\<not> nullish tokenData" by (simp add: nullish_def)
  have at: "num_sub (num_add (now ?wf) (num_mul (ToNumber (js_prop tokenData ''expires_in'')) (Fin 1000))) (Fin 60000) = ?at"
    by (simp add: expires_in now_def num_sub_def)
  have run: "getAccessToken net w =
      (Inr (js_prop tokenData ''access_token''), cacheResponse TOKEN_CACHE_KEY ?tk (Num (Fin e)) ?wf)"
    using getAccessToken_grant [where net = net and w = w and ?w1.0 = ?wf, OF miss cid cs grant status nn refl] at expires_in by simp
  with first have r1: "r1 = Inr (js_prop tokenData ''access_token'')"
    and w1: "w1 = cacheResponse TOKEN_CACHE_KEY ?tk (Num (Fin e)) ?wf" by simp_all
  have clk: "clock w1 = clock w + int d" by (simp add: w1)
  have entry: "cache w1 TOKEN_CACHE_KEY =
      Some \<lparr> entry_value = ?tk, expiresAt = Fin (of_int (clock w1) + e * 1000) \<rparr>"
    by (simp add: w1 cache_cacheResponse now_def)
  have tk_at: "js_prop ?tk ''expires_at'' = Num (Fin (of_int (clock w1) + e * 1000 - 60000))"
    by (simp add: update_conv clk)
  have tk_tok: "js_prop ?tk ''access_token'' = js_prop tokenData ''access_token''"
    by (simp add: update_conv obj spread_def)
  have hit: "getAccessToken net2 w2 = (r1, w2)"
    if same: "cache w2 TOKEN_CACHE_KEY = cache w1 TOKEN_CACHE_KEY"
      and early: "of_int (clock w2) < of_int (clock w1) + e * 1000 - 60000" for net2 w2
  proof -
    have got: "getCachedResponse TOKEN_CACHE_KEY w2 = ?tk"
      using early by (simp add: getCachedResponse_def same entry now_def)
    have "token_valid ?tk w2"
      using early tk_at by (simp add: token_valid_def now_def)
    with got have "token_valid (getCachedResponse TOKEN_CACHE_KEY w2) w2" by simp
    from getAccessToken_hit [where net = net2, OF this] got tk_tok r1 show ?thesis by simp
  qed
  have late: "sent (snd (getAccessToken net2 w2)) =
        sent w2 @ [tokenRequest (getenv w2 ''FATSECRET_CLIENT_ID'') (getenv w2 ''FATSECRET_CLIENT_SECRET'')]"
    if same: "cache w2 TOKEN_CACHE_KEY = cache w1 TOKEN_CACHE_KEY"
      and expired: "of_int (clock w1) + e * 1000 - 60000 \<le> of_int (clock w2)"
      and c2: "truthy (getenv w2 ''FATSECRET_CLIENT_ID'')" "truthy (getenv w2 ''FATSECRET_CLIENT_SECRET'')"
    for net2 w2
  proof -
    have "\<not> token_valid (getCachedResponse TOKEN_CACHE_KEY w2) w2"
      using expired tk_at by (simp add: getCachedResponse_def same entry token_valid_def now_def)
    from getAccessToken_miss_sends [where net = net2, OF this c2] show ?thesis .
  qed
  from r1 clk entry tk_at hit late show ?thesis by blast
qed


theorem token_cached_until_expiry_witness:
  "fst (getAccessToken token_upstream configured_world) = Inr (Str ''abc'')
   \<and> getAccessToken no_network (snd (getAccessToken token_upstream configured_world)\<lparr> clock := 3540004 \<rparr>)
       = (Inr (Str ''abc''), snd (getAccessToken token_upstream configured_world)\<lparr> clock := 3540004 \<rparr>)
   \<and> sent (snd (getAccessToken no_network
         (snd (getAccessToken token_upstream configured_world)\<lparr> clock := 3540005 \<rparr>)))
       = sent (snd (getAccessToken token_upstream configured_world))
           @ [tokenRequest (Str ''id'') (Str ''secret'')]"
proof -
  let ?w1 = "snd (getAccessToken token_upstream configured_world)"
  let ?r1 = "fst (getAccessToken token_upstream configured_world)"
  have miss: "\<not> token_valid (getCachedResponse TOKEN_CACHE_KEY configured_world) configured_world"
    by (simp add: configured_world_no_token token_valid_Undefined)
  have cid: "truthy (getenv configured_world ''FATSECRET_CLIENT_ID'')"
    and cs: "truthy (getenv configured_world ''FATSECRET_CLIENT_SECRET'')"
    by (simp_all add: getenv_configured)
  have grant: "token_upstream configured_world
      (tokenRequest (getenv configured_world ''FATSECRET_CLIENT_ID'')
        (getenv configured_world ''FATSECRET_CLIENT_SECRET'')) = (Response 200 (Inr sample_token), 5)"
    by (simp add: token_upstream_def)
  have st: "ok 200" by (simp add: ok_def)
  have ei: "js_prop sample_token ''expires_in'' = Num (Fin 3600)"
    by (simp add: sample_token_def)
  have first: "getAccessToken token_upstream configured_world = (?r1, ?w1)" by simp
  have envw: "env ?w1 = env configured_world" by (rule env_getAccessToken)
  note T = token_cached_until_expiry [where net = token_upstream, OF miss cid cs grant st ei first]
  have r1: "?r1 = Inr (Str ''abc'')"
    using T [THEN conjunct1] by (simp add: sample_token_def)
  have clk: "clock ?w1 = 5"
    using T [THEN conjunct2, THEN conjunct1] by (simp add: configured_world_def fresh_world_def)
  note hit = T [THEN conjunct2, THEN conjunct2, THEN conjunct2, THEN conjunct1, rule_format]
  note late = T [THEN conjunct2, THEN conjunct2, THEN conjunct2, THEN conjunct2, rule_format]
  have g: "getenv (?w1\<lparr> clock := 3540005 \<rparr>) ''FATSECRET_CLIENT_ID'' = Str ''id''"
      "getenv (?w1\<lparr> clock := 3540005 \<rparr>) ''FATSECRET_CLIENT_SECRET'' = Str ''secret''"
    using getenv_configured by (simp_all add: getenv_def envw)
  have 2: "getAccessToken no_network (?w1\<lparr> clock := 3540004 \<rparr>) = (?r1, ?w1\<lparr> clock := 3540004 \<rparr>)"
    by (rule hit) (simp add: clk)
  have 3: "sent (snd (getAccessToken no_network (?w1\<lparr> clock := 3540005 \<rparr>))) =
        sent (?w1\<lparr> clock := 3540005 \<rparr>) @ [tokenRequest (getenv (?w1\<lparr> clock := 3540005 \<rparr>) ''FATSECRET_CLIENT_ID'')
           (getenv (?w1\<lparr> clock := 3540005 \<rparr>) ''FATSECRET_CLIENT_SECRET'')]"
    by (rule late) (simp add: clk g)
  from r1 2 3 show ?thesis by (simp add: g)
qed
subsection \<open>The search client\<close>

lemma falsy_prop: "\<not> truthy v \<Longrightarrow> \<not> truthy (js_prop v k)"
  by (cases v) (auto split: if_splits)

lemma nullish_prop: "nullish v \<Longrightarrow> js_prop v k = Undefined"
  by (auto simp add: nullish_def)

lemma cache_getAccessToken:
  "k \<noteq> TOKEN_CACHE_KEY \<Longrightarrow> cache (snd (getAccessToken net w)) k = cache w k"
  by (simp add: getAccessToken_def Let_def fetch_def cacheResponse_def
      split: fetch_result.splits sum.splits prod.splits)

lemma search_key_not_token: "search_key lq \<noteq> TOKEN_CACHE_KEY"
  by (simp add: search_key_def TOKEN_CACHE_KEY_def)

lemma searchFoods_hit:
  "truthy (getCachedResponse (search_key (toLowerCase s)) w) \<Longrightarrow>
   searchFoods net (Str s) maxResults w = (Inr (getCachedResponse (search_key (toLowerCase s)) w), w)"
  by (simp add: searchFoods_def searchFoods_try_def str_method_def)

lemma searchFoods_no_token:
  "\<not> truthy (getCachedResponse (search_key (toLowerCase s)) w) \<Longrightarrow>
   getAccessToken net w = (Inl e, w1) \<Longrightarrow>
   searchFoods net (Str s) maxResults w = (Inr (Arr []), w1)"
  by (simp add: searchFoods_def searchFoods_try_def str_method_def)

lemma searchFoods_null_max:
  "\<not> truthy (getCachedResponse (search_key (toLowerCase s)) w) \<Longrightarrow>
   getAccessToken net w = (Inr accessToken, w1) \<Longrightarrow>
   searchFoods net (Str s) Null w = (Inr (Arr []), w1)"
  by (simp add: searchFoods_def searchFoods_try_def str_method_def method_toString_def
      default_param_def nullish_def)

lemma searchFoods_sent:
  assumes "\<not> truthy (getCachedResponse (search_key (toLowerCase s)) w)"
    and "getAccessToken net w = (Inr accessToken, w1)"
    and "maxResults \<noteq> Null"
    and "req = searchRequest accessToken (Str s) (ToString (default_param maxResults (Num (Fin 3))))"
    and "w2 = w1\<lparr> clock := clock w1 + int (snd (net w1 req)), sent := sent w1 @ [req] \<rparr>"
  shows "searchFoods net (Str s) maxResults w =
     (case fst (net w1 req) of
        Rejected msg \<Rightarrow> (Inr (Arr []), w2)
      | Response status body \<Rightarrow>
          (case body of
             Inl msg \<Rightarrow> (Inr (Arr []), w2)
           | Inr searchData \<Rightarrow>
               if ok status \<and> truthy (js_prop (js_prop searchData ''foods'') ''food'')
               then (Inr (as_list (js_prop (js_prop searchData ''foods'') ''food'')),
                     cacheResponse (search_key (toLowerCase s))
                       (as_list (js_prop (js_prop searchData ''foods'') ''food'')) (Num (Fin 86400)) w2)
               else (Inr (Arr []), w2)))"
proof -
  have mr: "method_toString (default_param maxResults (Num (Fin 3))) =
      Inr (ToString (default_param maxResults (Num (Fin 3))))"
    using assms(3) by (simp add: method_toString_def default_param_def nullish_def)
  show ?thesis
    using assms(1,2,4,5) falsy_prop [of _ "''food''"]
    by (auto simp add: searchFoods_def searchFoods_try_def str_method_def mr
        fetch_def get_prop_def nullish_prop Let_def
        split: fetch_result.splits sum.splits)
qed

lemma searchFoods_outcome:
  assumes miss: "\<not> truthy (getCachedResponse (search_key (toLowerCase s)) w)"
    and run: "searchFoods net (Str s) maxResults w = (r, w')"
  shows "(r = Inr (Arr []) \<and> cache w' (search_key (toLowerCase s)) = cache w (search_key (toLowerCase s))
            \<and> (\<forall>f. \<not> search_success net s maxResults w f))
       \<or> (\<exists>f. search_success net s maxResults w f \<and> r = Inr (as_list f)
            \<and> cache w' (search_key (toLowerCase s)) =
                Some \<lparr> entry_value = as_list f, expiresAt = Fin (of_int (clock w') + 86400 * 1000) \<rparr>)"
proof (cases "getAccessToken net w")
  case (Pair tr w1)
  have frame: "cache w1 (search_key (toLowerCase s)) = cache w (search_key (toLowerCase s))"
    using cache_getAccessToken [where k = "search_key (toLowerCase s)" and net = net and w = w,
        OF search_key_not_token] Pair by simp
  show ?thesis
  proof (cases tr)
    case (Inl e)
    with Pair searchFoods_no_token [where net = net and maxResults = maxResults, OF miss] run frame
    show ?thesis by (auto simp add: search_success_def)
  next
    case (Inr tok)
    show ?thesis
    proof (cases "maxResults = Null")
      case True
      with Pair Inr searchFoods_null_max [where net = net, OF miss] run frame
      show ?thesis by (auto simp add: search_success_def)
    next
      case False
      let ?req = "searchRequest tok (Str s) (ToString (default_param maxResults (Num (Fin 3))))"
      let ?w2 = "w1\<lparr> clock := clock w1 + int (snd (net w1 ?req)), sent := sent w1 @ [?req] \<rparr>"
      from Pair Inr have tok: "getAccessToken net w = (Inr tok, w1)" by simp
      note sent = searchFoods_sent [where net = net, OF miss tok False refl refl]
      show ?thesis
      proof (cases "fst (net w1 ?req)")
        case (Rejected msg)
        with sent run frame tok show ?thesis by (auto simp add: search_success_def)
      next
        case (Response status body)
        show ?thesis
        proof (cases body)
          case (Inl msg)
          with Response sent run frame tok show ?thesis by (auto simp add: search_success_def)
        next
          case (Inr sd)
          show ?thesis
          proof (cases "ok status \<and> truthy (js_prop (js_prop sd ''foods'') ''food'')")
            case True
            with Inr Response sent run
            have r: "r = Inr (as_list (js_prop (js_prop sd ''foods'') ''food''))"
              and w': "w' = cacheResponse (search_key (toLowerCase s))
                       (as_list (js_prop (js_prop sd ''foods'') ''food'')) (Num (Fin 86400)) ?w2"
              by simp_all
            have "search_success net s maxResults w (js_prop (js_prop sd ''foods'') ''food'')"
              unfolding search_success_def using tok False Response Inr True by blast
            moreover have "cache w' (search_key (toLowerCase s)) =
                Some \<lparr> entry_value = as_list (js_prop (js_prop sd ''foods'') ''food''),
                       expiresAt = Fin (of_int (clock w') + 86400 * 1000) \<rparr>"
              by (simp add: w' cacheResponse_def now_def)
            ultimately show ?thesis using r by blast
          next
            case False
            with Inr Response sent run frame tok show ?thesis by (auto simp add: search_success_def)
          qed
        qed
      qed
    qed
  qed
qed


lemma warm_world_token: "getAccessToken net warm_world = (Inr (Str ''abc''), warm_world)"
  by (simp add: getAccessToken_def getCachedResponse_def token_valid_def now_def
      warm_world_def configured_world_def fresh_world_def)

lemma warm_world_miss: "k \<noteq> TOKEN_CACHE_KEY \<Longrightarrow> getCachedResponse k warm_world = Undefined"
  by (simp add: getCachedResponse_def warm_world_def configured_world_def fresh_world_def)

lemma warm_world_fields:
  "clock warm_world = 0" "sent warm_world = []"
  "k \<noteq> TOKEN_CACHE_KEY \<Longrightarrow> cache warm_world k = None"
  by (simp_all add: warm_world_def configured_world_def fresh_world_def)

lemma kale_key: "search_key (toLowerCase ''Kale'') = ''fatsecret_search_kale''"
  by code_simp

lemma default_three: "ToString (default_param Undefined (Num (Fin 3))) = ''3''"
  by code_simp

lemma kale_search_miss: "\<not> truthy (getCachedResponse (search_key (toLowerCase ''Kale'')) warm_world)"
  by (simp add: warm_world_miss search_key_not_token)

lemma kale_search_sample:
  "searchFoods sample_upstream (Str ''Kale'') Undefined warm_world =
     (Inr (Arr [kale_summary]),
      cacheResponse ''fatsecret_search_kale'' (Arr [kale_summary]) (Num (Fin 86400))
        (warm_world\<lparr> clock := 5,
           sent := [searchRequest (Str ''abc'') (Str ''Kale'') ''3''] \<rparr>))"
  using searchFoods_sent [where net = sample_upstream and maxResults = Undefined,
      OF kale_search_miss warm_world_token _ refl refl]
  by (simp add: default_three kale_key warm_world_fields sample_upstream_def searchRequest_def
      apiRequest_def FATSECRET_API_URL_def FATSECRET_TOKEN_URL_def ok_def kale_summary_def as_list_def)

text \<open>
  C8. Take a call of \<open>searchFoods\<close> that finds nothing under the key of its query. A result
  list that is not empty is stored under that key, to expire 86400 seconds after the clock
  of the final state. Nothing is written under that key, and the result is the empty list,
  when no token can be had, when the search request is rejected, when its status is not a
  success, when its body is not JSON, and when the \<open>foods.food\<close> member of the body is absent
  or falsy.
\<close>

theorem searchFoods_cache_writes:
  assumes miss: "\<not> truthy (getCachedResponse (search_key (toLowerCase s)) w)"
    and run: "searchFoods net (Str s) maxResults w = (r, w')"
  shows "(\<forall>xs. r = Inr (Arr xs) \<and> xs \<noteq> [] \<longrightarrow>
            cache w' (search_key (toLowerCase s)) =
              Some \<lparr> entry_value = Arr xs, expiresAt = Fin (of_int (clock w') + 86400 * 1000) \<rparr>)
    \<and> (\<forall>e w1. getAccessToken net w = (Inl e, w1) \<longrightarrow>
            r = Inr (Arr []) \<and> cache w' (search_key (toLowerCase s)) = cache w (search_key (toLowerCase s)))
    \<and> (\<forall>accessToken w1 msg.
            getAccessToken net w = (Inr accessToken, w1)
            \<and> fst (net w1 (searchRequest accessToken (Str s) (ToString (default_param maxResults (Num (Fin 3))))))
                = Rejected msg \<longrightarrow>
            r = Inr (Arr []) \<and> cache w' (search_key (toLowerCase s)) = cache w (search_key (toLowerCase s)))
    \<and> (\<forall>accessToken w1 status body.
            getAccessToken net w = (Inr accessToken, w1)
            \<and> fst (net w1 (searchRequest accessToken (Str s) (ToString (default_param maxResults (Num (Fin 3))))))
                = Response status body
            \<and> (\<not> ok status \<or> (\<exists>msg. body = Inl msg)
                 \<or> (\<exists>searchData. body = Inr searchData
                        \<and> \<not> truthy (js_prop (js_prop searchData ''foods'') ''food''))) \<longrightarrow>
            r = Inr (Arr []) \<and> cache w' (search_key (toLowerCase s)) = cache w (search_key (toLowerCase s)))"
proof -
  note out = searchFoods_outcome [OF miss run]
  have stored: "cache w' (search_key (toLowerCase s)) =
      Some \<lparr> entry_value = Arr xs, expiresAt = Fin (of_int (clock w') + 86400 * 1000) \<rparr>"
    if "r = Inr (Arr xs)" "xs \<noteq> []" for xs
    using out that by auto
  have none: "r = Inr (Arr []) \<and> cache w' (search_key (toLowerCase s)) = cache w (search_key (toLowerCase s))"
    if "\<forall>f. \<not> search_success net s maxResults w f"
    using out that by blast
  have a: "\<forall>f. \<not> search_success net s maxResults w f" if "getAccessToken net w = (Inl e, w1)" for e w1
    using that by (simp add: search_success_def)
  have b: "\<forall>f. \<not> search_success net s maxResults w f"
    if "getAccessToken net w = (Inr accessToken, w1)"
      "fst (net w1 (searchRequest accessToken (Str s) (ToString (default_param maxResults (Num (Fin 3))))))
         = Rejected msg" for accessToken w1 msg
    using that by (simp add: search_success_def)
  have c: "\<forall>f. \<not> search_success net s maxResults w f"
    if "getAccessToken net w = (Inr accessToken, w1)"
      "fst (net w1 (searchRequest accessToken (Str s) (ToString (default_param maxResults (Num (Fin 3))))))
         = Response status body"
      "\<not> ok status \<or> (\<exists>msg. body = Inl msg)
        \<or> (\<exists>searchData. body = Inr searchData \<and> \<not> truthy (js_prop (js_prop searchData ''foods'') ''food''))"
    for accessToken w1 status body
    using that by (auto simp add: search_success_def)
  show ?thesis
    apply (intro conjI allI impI)
          apply (rule stored; blast)
         apply (rule none [THEN conjunct1], rule a, assumption)
        apply (rule none [THEN conjunct2], rule a, assumption)
       apply (rule none [THEN conjunct1], rule b; blast)
      apply (rule none [THEN conjunct2], rule b; blast)
     apply (rule none [THEN conjunct1], rule c; blast)
    apply (rule none [THEN conjunct2], rule c; blast)
    done
qed


theorem searchFoods_cache_writes_witness:
  "\<not> truthy (getCachedResponse (search_key (toLowerCase ''Kale'')) warm_world)
   \<and> fst (searchFoods sample_upstream (Str ''Kale'') Undefined warm_world) = Inr (Arr [kale_summary])
   \<and> cache (snd (searchFoods sample_upstream (Str ''Kale'') Undefined warm_world)) ''fatsecret_search_kale''
       = Some \<lparr> entry_value = Arr [kale_summary], expiresAt = Fin 86400005 \<rparr>
   \<and> fst (searchFoods no_network (Str ''Kale'') Undefined warm_world) = Inr (Arr [])
   \<and> cache (snd (searchFoods no_network (Str ''Kale'') Undefined warm_world)) ''fatsecret_search_kale''
       = None"
proof -
  let ?ok = "searchFoods sample_upstream (Str ''Kale'') Undefined warm_world"
  let ?down = "searchFoods no_network (Str ''Kale'') Undefined warm_world"
  have r: "fst ?ok = Inr (Arr [kale_summary])" and clk: "clock (snd ?ok) = 5"
    by (simp_all add: kale_search_sample)
  have ne: "[kale_summary] \<noteq> []" by simp
  note T1 = searchFoods_cache_writes [where net = sample_upstream and maxResults = Undefined,
      OF kale_search_miss prod.collapse [symmetric]]
  note T2 = searchFoods_cache_writes [where net = no_network and maxResults = Undefined,
      OF kale_search_miss prod.collapse [symmetric]]
  have "cache (snd ?ok) (search_key (toLowerCase ''Kale'')) =
      Some \<lparr> entry_value = Arr [kale_summary], expiresAt = Fin (of_int (clock (snd ?ok)) + 86400 * 1000) \<rparr>"
    using T1 [THEN conjunct1, rule_format, of "[kale_summary]"] r ne by blast
  then have stored: "cache (snd ?ok) ''fatsecret_search_kale'' =
      Some \<lparr> entry_value = Arr [kale_summary], expiresAt = Fin 86400005 \<rparr>"
    by (simp add: kale_key clk)
  have rej: "fst (no_network warm_world
      (searchRequest (Str ''abc'') (Str ''Kale'') (ToString (default_param Undefined (Num (Fin 3))))))
      = Rejected ''network down''"
    by (simp add: no_network_def)
  have "fst ?down = Inr (Arr []) \<and>
      cache (snd ?down) (search_key (toLowerCase ''Kale'')) = cache warm_world (search_key (toLowerCase ''Kale''))"
    using T2 [THEN conjunct2, THEN conjunct2, THEN conjunct1,
        rule_format, of "Str ''abc''" warm_world "''network down''"]
      warm_world_token [of no_network] rej by blast
  then have down: "fst ?down = Inr (Arr [])" "cache (snd ?down) ''fatsecret_search_kale'' = None"
    using warm_world_fields(3) [OF search_key_not_token, of "toLowerCase ''Kale''"]
    by (simp_all add: kale_key)
  from kale_search_miss r stored down show ?thesis by simp
qed

text \<open>
  A response whose \<open>foods.food\<close> member is the empty array passes the test of line 121, an
  array being truthy: the result is the empty list, and it is stored in the cache.
\<close>

theorem empty_result_is_cached:
  "cache warm_world ''fatsecret_search_kale'' = None
   \<and> fst (searchFoods empty_list_upstream (Str ''Kale'') Undefined warm_world) = Inr (Arr [])
   \<and> cache (snd (searchFoods empty_list_upstream (Str ''Kale'') Undefined warm_world)) ''fatsecret_search_kale''
       = Some \<lparr> entry_value = Arr [], expiresAt = Fin 86400005 \<rparr>"
proof -
  have "searchFoods empty_list_upstream (Str ''Kale'') Undefined warm_world =
     (Inr (Arr []),
      cacheResponse ''fatsecret_search_kale'' (Arr []) (Num (Fin 86400))
        (warm_world\<lparr> clock := 5, sent := [searchRequest (Str ''abc'') (Str ''Kale'') ''3''] \<rparr>))"
    using searchFoods_sent [where net = empty_list_upstream and maxResults = Undefined,
        OF kale_search_miss warm_world_token _ refl refl]
    by (simp add: default_three kale_key warm_world_fields empty_list_upstream_def ok_def as_list_def)
  moreover have "cache warm_world ''fatsecret_search_kale'' = None"
    by (simp add: warm_world_fields TOKEN_CACHE_KEY_def)
  ultimately show ?thesis by (simp add: cacheResponse_def now_def)
qed

subsection \<open>The orchestrator\<close>

text \<open>
  A detail response without a \<open>food\<close> member makes \<open>getFoodDetails\<close> return \<open>undefined\<close>; the
  orchestrator hands it to the normalizer as it is.
\<close>

lemma getFoodDetails_without_food:
  assumes "\<not> truthy (getCachedResponse (food_key foodId) w)"
    and "getAccessToken net w = (Inr accessToken, w1)"
    and "fst (net w1 (detailsRequest accessToken foodId)) = Response status (Inr detailsData)"
    and "ok status"
    and "\<not> nullish detailsData"
    and "js_prop detailsData ''food'' = Undefined"
  shows "fst (getFoodDetails net foodId w) = Inr Undefined"
  using assms by (simp add: getFoodDetails_def fetch_def get_prop_def)

lemma nutrition_key_distinct:
  "nutrition_key l \<noteq> TOKEN_CACHE_KEY"
  "nutrition_key l \<noteq> search_key lq"
  "nutrition_key l \<noteq> food_key foodId"
  by (simp_all add: nutrition_key_def TOKEN_CACHE_KEY_def search_key_def food_key_def)

lemma cache_searchFoods:
  assumes "k \<noteq> TOKEN_CACHE_KEY" and "\<And>lq. k \<noteq> search_key lq"
  shows "cache (snd (searchFoods net query maxResults w)) k = cache w k"
proof -
  have tok: "cache w1 k = cache w k" if "getAccessToken net w = (r, w1)" for r w1
    using cache_getAccessToken [where net = net and w = w, OF assms(1)] that by simp
  show ?thesis
    using assms(2)
    by (auto simp add: searchFoods_def searchFoods_try_def fetch_def cacheResponse_def Let_def
        dest: tok split: sum.splits prod.splits fetch_result.splits if_splits)
qed

lemma cache_getFoodDetails:
  assumes "k \<noteq> TOKEN_CACHE_KEY" and "k \<noteq> food_key foodId"
  shows "cache (snd (getFoodDetails net foodId w)) k = cache w k"
proof -
  have tok: "cache w1 k = cache w k" if "getAccessToken net w = (r, w1)" for r w1
    using cache_getAccessToken [where net = net and w = w, OF assms(1)] that by simp
  show ?thesis
    using assms(2)
    by (auto simp add: getFoodDetails_def fetch_def cacheResponse_def Let_def
        dest: tok split: sum.splits prod.splits fetch_result.splits if_splits)
qed

lemma searchFoods_returns: "\<exists>v. fst (searchFoods net query maxResults w) = Inr v"
  by (simp add: searchFoods_def split: sum.splits prod.splits)

lemma orchestrator_returns: "\<exists>v. fst (getNutritionFromFatSecret net foodLabel w) = Inr v"
  by (simp add: getNutritionFromFatSecret_def split: sum.splits prod.splits)


lemma nutrition_frame_search:
  "searchFoods net query maxResults w = (r, w1) \<Longrightarrow> cache w1 (nutrition_key l) = cache w (nutrition_key l)"
  using cache_searchFoods [where net = net and query = query and maxResults = maxResults and w = w
      and k = "nutrition_key l", OF nutrition_key_distinct(1) nutrition_key_distinct(2)]
  by simp

lemma nutrition_frame_details:
  "getFoodDetails net foodId w1 = (r, w2) \<Longrightarrow> cache w2 (nutrition_key l) = cache w1 (nutrition_key l)"
  using cache_getFoodDetails [where net = net and foodId = foodId and w = w1
      and k = "nutrition_key l", OF nutrition_key_distinct(1) nutrition_key_distinct(3)]
  by simp

lemma nutrition_frame_both:
  "searchFoods net query maxResults w = (r, w1) \<Longrightarrow> getFoodDetails net foodId w1 = (r', w2) \<Longrightarrow>
   cache w2 (nutrition_key l) = cache w (nutrition_key l)"
  using nutrition_frame_search [where l = l] nutrition_frame_details [where l = l] by metis

lemma nutrition_frame_try:
  assumes "(\<exists>e. fst (getNutritionFromFatSecret_try net foodLabel w) = Inl e)
           \<or> fst (getNutritionFromFatSecret_try net foodLabel w) = Inr Null"
  shows "cache (snd (getNutritionFromFatSecret_try net foodLabel w)) (nutrition_key l) = cache w (nutrition_key l)"
  using assms
  by (auto simp add: getNutritionFromFatSecret_try_def Let_def nutrition_value_def
      intro: nutrition_frame_search nutrition_frame_both
      split: sum.splits prod.splits if_splits)


lemma orchestrator_null:
  assumes "(\<exists>e. fst (getNutritionFromFatSecret_try net foodLabel w) = Inl e)
           \<or> fst (getNutritionFromFatSecret_try net foodLabel w) = Inr Null"
  shows "fst (getNutritionFromFatSecret net foodLabel w) = Inr Null
       \<and> (\<forall>l. cache (snd (getNutritionFromFatSecret net foodLabel w)) (nutrition_key l) = cache w (nutrition_key l))"
proof -
  have w: "snd (getNutritionFromFatSecret net foodLabel w) = snd (getNutritionFromFatSecret_try net foodLabel w)"
    by (simp add: getNutritionFromFatSecret_def split: sum.splits prod.splits)
  have r: "fst (getNutritionFromFatSecret net foodLabel w) = Inr Null"
    using assms by (auto simp add: getNutritionFromFatSecret_def split: sum.splits prod.splits)
  from r w nutrition_frame_try [OF assms] show ?thesis by simp
qed

lemma kale_keys:
  "search_key (toLowerCase ''kale'') = ''fatsecret_search_kale''"
  "nutrition_key (toLowerCase ''kale'') = ''fatsecret_nutrition_kale''"
  by code_simp+

lemma kale_search_down:
  "fst (searchFoods no_network (Str ''kale'') Undefined warm_world) = Inr (Arr [])"
proof -
  have miss: "\<not> truthy (getCachedResponse (search_key (toLowerCase ''kale'')) warm_world)"
    by (simp add: warm_world_miss search_key_not_token)
  have nn: "Undefined \<noteq> Null" by simp
  show ?thesis
    using searchFoods_sent [where net = no_network, OF miss warm_world_token nn refl refl]
    by (simp add: no_network_def)
qed

text \<open>
  C7. Take a call of \<open>getNutritionFromFatSecret\<close> with a label that is a string, not empty,
  and not cached. When the search step returns no result, when the detail step throws, or
  when the normalizer throws (and whenever anything else in the \<open>try\<close> block throws), the
  call returns \<open>null\<close> and throws nothing, and the cache holds under every nutrition key, the
  one of the label among them, what it held before the call.
\<close>

theorem orchestrator_fails_open:
  assumes "(\<exists>s searchResults.
              foodLabel = Str s \<and> s \<noteq> []
              \<and> \<not> truthy (getCachedResponse (nutrition_key (toLowerCase s)) w)
              \<and> fst (searchFoods net foodLabel Undefined w) = Inr searchResults
              \<and> (\<not> truthy searchResults \<or> js_prop searchResults ''length'' = Num (Fin 0)))
         \<or> (\<exists>s searchResults w1 e.
              foodLabel = Str s \<and> s \<noteq> []
              \<and> \<not> truthy (getCachedResponse (nutrition_key (toLowerCase s)) w)
              \<and> searchFoods net foodLabel Undefined w = (Inr searchResults, w1)
              \<and> truthy searchResults \<and> js_prop searchResults ''length'' \<noteq> Num (Fin 0)
              \<and> \<not> nullish (elem0 searchResults)
              \<and> fst (getFoodDetails net (js_prop (elem0 searchResults) ''food_id'') w1) = Inl e)
         \<or> (\<exists>s searchResults w1 foodDetails w2 e.
              foodLabel = Str s \<and> s \<noteq> []
              \<and> \<not> truthy (getCachedResponse (nutrition_key (toLowerCase s)) w)
              \<and> searchFoods net foodLabel Undefined w = (Inr searchResults, w1)
              \<and> truthy searchResults \<and> js_prop searchResults ''length'' \<noteq> Num (Fin 0)
              \<and> \<not> nullish (elem0 searchResults)
              \<and> getFoodDetails net (js_prop (elem0 searchResults) ''food_id'') w1 = (Inr foodDetails, w2)
              \<and> standardizeNutritionData foodDetails = Inl e)
         \<or> (\<exists>e. fst (getNutritionFromFatSecret_try net foodLabel w) = Inl e)"
  shows "fst (getNutritionFromFatSecret net foodLabel w) = Inr Null
       \<and> (\<forall>l. cache (snd (getNutritionFromFatSecret net foodLabel w)) (nutrition_key l) = cache w (nutrition_key l))"
proof (rule orchestrator_null)
  from assms
  show "(\<exists>e. fst (getNutritionFromFatSecret_try net foodLabel w) = Inl e)
        \<or> fst (getNutritionFromFatSecret_try net foodLabel w) = Inr Null"
  proof (elim disjE exE conjE)
    fix s searchResults
    assume "foodLabel = Str s" "s \<noteq> []"
      "\<not> truthy (getCachedResponse (nutrition_key (toLowerCase s)) w)"
      "fst (searchFoods net foodLabel Undefined w) = Inr searchResults"
      "\<not> truthy searchResults"
    then have "fst (getNutritionFromFatSecret_try net foodLabel w) = Inr Null"
      by (auto simp add: getNutritionFromFatSecret_try_def str_method_def split: prod.splits)
    then show ?thesis ..
  next
    fix s searchResults
    assume "foodLabel = Str s" "s \<noteq> []"
      "\<not> truthy (getCachedResponse (nutrition_key (toLowerCase s)) w)"
      "fst (searchFoods net foodLabel Undefined w) = Inr searchResults"
      "js_prop searchResults ''length'' = Num (Fin 0)"
    then have "fst (getNutritionFromFatSecret_try net foodLabel w) = Inr Null"
      by (auto simp add: getNutritionFromFatSecret_try_def str_method_def split: prod.splits)
    then show ?thesis ..
  next
    fix s searchResults w1 e
    assume "foodLabel = Str s" "s \<noteq> []"
      "\<not> truthy (getCachedResponse (nutrition_key (toLowerCase s)) w)"
      "searchFoods net foodLabel Undefined w = (Inr searchResults, w1)"
      "truthy searchResults" "js_prop searchResults ''length'' \<noteq> Num (Fin 0)"
      "\<not> nullish (elem0 searchResults)"
      "fst (getFoodDetails net (js_prop (elem0 searchResults) ''food_id'') w1) = Inl e"
    then have "fst (getNutritionFromFatSecret_try net foodLabel w) = Inl e"
      by (auto simp add: getNutritionFromFatSecret_try_def str_method_def get_prop_def split: prod.splits)
    then show ?thesis by blast
  next
    fix s searchResults w1 foodDetails w2 e
    assume "foodLabel = Str s" "s \<noteq> []"
      "\<not> truthy (getCachedResponse (nutrition_key (toLowerCase s)) w)"
      "searchFoods net foodLabel Undefined w = (Inr searchResults, w1)"
      "truthy searchResults" "js_prop searchResults ''length'' \<noteq> Num (Fin 0)"
      "\<not> nullish (elem0 searchResults)"
      "getFoodDetails net (js_prop (elem0 searchResults) ''food_id'') w1 = (Inr foodDetails, w2)"
      "standardizeNutritionData foodDetails = Inl e"
    then have "fst (getNutritionFromFatSecret_try net foodLabel w) = Inl e"
      by (simp add: getNutritionFromFatSecret_try_def str_method_def get_prop_def)
    then show ?thesis by blast
  next
    fix e
    assume "fst (getNutritionFromFatSecret_try net foodLabel w) = Inl e"
    then show ?thesis by blast
  qed
qed


theorem orchestrator_fails_open_witness:
  "fst (searchFoods no_network (Str ''kale'') Undefined warm_world) = Inr (Arr [])
   \<and> fst (getNutritionFromFatSecret no_network (Str ''kale'') warm_world) = Inr Null
   \<and> cache (snd (getNutritionFromFatSecret no_network (Str ''kale'') warm_world)) ''fatsecret_nutrition_kale''
       = None"
proof -
  have miss: "\<not> truthy (getCachedResponse (nutrition_key (toLowerCase ''kale'')) warm_world)"
    by (simp add: warm_world_miss nutrition_key_distinct)
  have empty: "js_prop (Arr []) ''length'' = Num (Fin 0)" by simp
  have "\<exists>s searchResults.
      Str ''kale'' = Str s \<and> s \<noteq> []
      \<and> \<not> truthy (getCachedResponse (nutrition_key (toLowerCase s)) warm_world)
      \<and> fst (searchFoods no_network (Str ''kale'') Undefined warm_world) = Inr searchResults
      \<and> (\<not> truthy searchResults \<or> js_prop searchResults ''length'' = Num (Fin 0))"
    using miss kale_search_down empty by blast
  then have T: "fst (getNutritionFromFatSecret no_network (Str ''kale'') warm_world) = Inr Null
       \<and> (\<forall>l. cache (snd (getNutritionFromFatSecret no_network (Str ''kale'') warm_world)) (nutrition_key l)
              = cache warm_world (nutrition_key l))"
    by (rule orchestrator_fails_open [OF disjI1])
  then have "cache (snd (getNutritionFromFatSecret no_network (Str ''kale'') warm_world))
        (nutrition_key (toLowerCase ''kale'')) = cache warm_world (nutrition_key (toLowerCase ''kale''))"
    by blast
  then have "cache (snd (getNutritionFromFatSecret no_network (Str ''kale'') warm_world))
        ''fatsecret_nutrition_kale'' = None"
    using warm_world_fields(3) [OF nutrition_key_distinct(1), of "toLowerCase ''kale''"]
    by (simp add: kale_keys)
  with T kale_search_down show ?thesis by blast
qed

subsection \<open>The autocomplete client\<close>

text \<open>
  C9. When the expression is absent (or falsy in another way), or is a string whose trimmed
  length is below 2, \<open>autocompleteSearch\<close> returns the empty list at once: the result is the
  same whatever the cache holds and whatever the upstream would answer, and the world is
  left as it was, so no request is sent and nothing is cached.
\<close>

theorem autocomplete_guard:
  assumes "\<not> truthy expression \<or> (\<exists>s. expression = Str s \<and> length (trim s) < 2)"
  shows "autocompleteSearch net expression maxResults region w = (Inr (Arr []), w)"
  using assms
  by (auto simp add: autocompleteSearch_def autocompleteSearch_try_def str_method_def)

theorem autocomplete_guard_witness:
  "length (trim ''a'') < 2 \<and>
   autocompleteSearch no_network (Str ''a'') Undefined Undefined fresh_world
     = (Inr (Arr []), fresh_world)"
proof -
  have h: "length (trim ''a'') < 2" by code_simp
  then have "\<not> truthy (Str ''a'') \<or> (\<exists>s. Str ''a'' = Str s \<and> length (trim s) < 2)" by simp
  from autocomplete_guard [OF this] h show ?thesis by simp
qed

lemma trim_Nil: "trim [] = []"
  by (simp add: trim_def)

lemma autocomplete_key_not_token: "autocomplete_key le mr rg \<noteq> TOKEN_CACHE_KEY"
  by (simp add: autocomplete_key_def TOKEN_CACHE_KEY_def)

lemma autocompleteSearch_hit:
  assumes "2 \<le> length (trim x)"
    and "key = autocomplete_key (toLowerCase x) (default_param maxResults (Num (Fin 4))) (default_param region Null)"
    and "truthy (getCachedResponse key w)"
  shows "autocompleteSearch net (Str x) maxResults region w = (Inr (getCachedResponse key w), w)"
proof -
  from assms(1) have "x \<noteq> []" using trim_Nil by auto
  with assms show ?thesis
    by (simp add: autocompleteSearch_def autocompleteSearch_try_def str_method_def)
qed

lemma autocompleteSearch_sent:
  assumes "2 \<le> length (trim x)"
    and "key = autocomplete_key (toLowerCase x) (default_param maxResults (Num (Fin 4))) (default_param region Null)"
    and "\<not> truthy (getCachedResponse key w)"
    and "getAccessToken net w = (Inr accessToken, w1)"
    and "req = apiRequest accessToken
           (autocomplete_params (trim x) (default_param maxResults (Num (Fin 4))) (default_param region Null))"
    and "w2 = w1\<lparr> clock := clock w1 + int (snd (net w1 req)), sent := sent w1 @ [req] \<rparr>"
  shows "autocompleteSearch net (Str x) maxResults region w =
     (case fst (net w1 req) of
        Rejected msg \<Rightarrow> (Inr (Arr []), w2)
      | Response status body \<Rightarrow>
          (case body of
             Inl msg \<Rightarrow> (Inr (Arr []), w2)
           | Inr responseData \<Rightarrow>
               if ok status \<and> truthy (js_prop (js_prop responseData ''suggestions'') ''suggestion'')
               then (Inr (as_list (js_prop (js_prop responseData ''suggestions'') ''suggestion'')),
                     cacheResponse key
                       (as_list (js_prop (js_prop responseData ''suggestions'') ''suggestion''))
                       (Num (Fin 900)) w2)
               else (Inr (Arr []), w2)))"
proof -
  from assms(1) have "x \<noteq> []" using trim_Nil by auto
  then show ?thesis
    using assms falsy_prop [of _ "''suggestion''"]
    by (auto simp add: autocompleteSearch_def autocompleteSearch_try_def str_method_def
        fetch_def get_prop_def nullish_prop Let_def
        split: fetch_result.splits sum.splits)
qed

lemma as_list_cases:
  "as_list (Arr xs) = Arr xs" "as_list (Obj kvs) = Arr [Obj kvs]" "as_list (Str t) = Arr [Str t]"
  by (simp_all add: as_list_def)

lemma kale_autocomplete_key:
  "autocomplete_key (toLowerCase ''Kale'') (default_param Undefined (Num (Fin 4))) (default_param Undefined Null)
     = ''fatsecret_autocomplete_kale_4_default''"
  by code_simp

lemma kale_trim: "trim ''Kale'' = ''Kale''"
  by code_simp

lemma kale_autocomplete_miss:
  "\<not> truthy (getCachedResponse
      (autocomplete_key (toLowerCase ''Kale'') (default_param Undefined (Num (Fin 4))) (default_param Undefined Null))
      warm_world)"
  by (simp add: warm_world_miss autocomplete_key_not_token)

lemma kale_params:
  "autocomplete_params (trim ''Kale'') (default_param Undefined (Num (Fin 4))) (default_param Undefined Null)
     = [(''method'', ''foods.autocomplete.v2''), (''expression'', ''Kale''), (''max_results'', ''4''),
        (''format'', ''json'')]"
  by code_simp

lemma same_case_sample: "toLowerCase ''Kale'' = toLowerCase ''kALE''"
  by code_simp

lemma kale_autocomplete_response:
  "fst (sample_upstream warm_world (apiRequest (Str ''abc'')
      (autocomplete_params (trim ''Kale'') (default_param Undefined (Num (Fin 4))) (default_param Undefined Null))))
   = Response 200 (Inr (Obj [(''suggestions'', Obj [(''suggestion'', Str ''kale'')])]))"
  by (simp add: kale_params sample_upstream_def apiRequest_def FATSECRET_API_URL_def FATSECRET_TOKEN_URL_def)

text \<open>
  C6. Take a call of \<open>searchFoods\<close> and a call of \<open>autocompleteSearch\<close> that both reach the
  upstream and get a successful response, the repeated field (\<open>foods.food\<close>, respectively
  \<open>suggestions.suggestion\<close>) having the same value in both. Then both calls return the same
  list: the empty list when the field is absent, the one-element list of the value when it
  is a single object (or a single string that is not empty), and the field itself when it is
  a list.
\<close>

theorem envelope_normalization:
  assumes s_miss: "\<not> truthy (getCachedResponse (search_key (toLowerCase s)) w)"
    and s_token: "getAccessToken net w = (Inr accessToken, w1)"
    and s_max: "maxResults \<noteq> Null"
    and s_response: "fst (net w1 (searchRequest accessToken (Str s)
                        (ToString (default_param maxResults (Num (Fin 3)))))) = Response status (Inr searchData)"
    and s_ok: "ok status"
    and s_field: "js_prop (js_prop searchData ''foods'') ''food'' = f"
    and a_length: "2 \<le> length (trim x)"
    and a_miss: "\<not> truthy (getCachedResponse
                    (autocomplete_key (toLowerCase x) (default_param limit (Num (Fin 4))) (default_param region Null)) v)"
    and a_token: "getAccessToken net' v = (Inr accessToken', v1)"
    and a_response: "fst (net' v1 (apiRequest accessToken'
                        (autocomplete_params (trim x) (default_param limit (Num (Fin 4))) (default_param region Null))))
                      = Response status' (Inr responseData)"
    and a_ok: "ok status'"
    and a_field: "js_prop (js_prop responseData ''suggestions'') ''suggestion'' = f"
  shows "fst (searchFoods net (Str s) maxResults w) = fst (autocompleteSearch net' (Str x) limit region v)
    \<and> (f = Undefined \<longrightarrow> fst (searchFoods net (Str s) maxResults w) = Inr (Arr []))
    \<and> (\<forall>kvs. f = Obj kvs \<longrightarrow> fst (searchFoods net (Str s) maxResults w) = Inr (Arr [Obj kvs]))
    \<and> (\<forall>t. f = Str t \<and> t \<noteq> [] \<longrightarrow> fst (searchFoods net (Str s) maxResults w) = Inr (Arr [Str t]))
    \<and> (\<forall>xs. f = Arr xs \<longrightarrow> fst (searchFoods net (Str s) maxResults w) = Inr (Arr xs))"
proof -
  have search: "fst (searchFoods net (Str s) maxResults w) = Inr (if truthy f then as_list f else Arr [])"
    using searchFoods_sent [where net = net, OF s_miss s_token s_max refl refl] s_response s_ok s_field
    by simp
  have auto: "fst (autocompleteSearch net' (Str x) limit region v) = Inr (if truthy f then as_list f else Arr [])"
    using autocompleteSearch_sent [where net = net', OF a_length refl a_miss a_token refl refl]
      a_response a_ok a_field
    by simp
  from search auto show ?thesis by (simp add: as_list_cases)
qed


theorem envelope_normalization_witness:
  "fst (searchFoods twin_upstream (Str ''Kale'') Undefined warm_world) = Inr (Arr [kale_summary])
   \<and> fst (autocompleteSearch twin_upstream (Str ''Kale'') Undefined Undefined warm_world)
       = Inr (Arr [kale_summary])"
proof -
  have len: "2 \<le> length (trim ''Kale'')" by (simp add: kale_trim)
  have s_resp: "fst (twin_upstream warm_world (searchRequest (Str ''abc'') (Str ''Kale'')
        (ToString (default_param Undefined (Num (Fin 3))))))
      = Response 200 (Inr (Obj [(''foods'', Obj [(''food'', kale_summary)]),
                              (''suggestions'', Obj [(''suggestion'', kale_summary)])]))"
    by (simp add: twin_upstream_def)
  have a_resp: "fst (twin_upstream warm_world (apiRequest (Str ''abc'')
        (autocomplete_params (trim ''Kale'') (default_param Undefined (Num (Fin 4))) (default_param Undefined Null))))
      = Response 200 (Inr (Obj [(''foods'', Obj [(''food'', kale_summary)]),
                              (''suggestions'', Obj [(''suggestion'', kale_summary)])]))"
    by (simp add: twin_upstream_def)
  have ok: "ok 200" by (simp add: ok_def)
  have f1: "js_prop (js_prop (Obj [(''foods'', Obj [(''food'', kale_summary)]),
                              (''suggestions'', Obj [(''suggestion'', kale_summary)])]) ''foods'') ''food''
            = Obj [(''food_id'', Str ''35718''), (''food_name'', Str ''Kale'')]"
    by (simp add: kale_summary_def)
  have f2: "js_prop (js_prop (Obj [(''foods'', Obj [(''food'', kale_summary)]),
                              (''suggestions'', Obj [(''suggestion'', kale_summary)])]) ''suggestions'') ''suggestion''
            = Obj [(''food_id'', Str ''35718''), (''food_name'', Str ''Kale'')]"
    by (simp add: kale_summary_def)
  have nn: "Undefined \<noteq> Null" by simp
  note T = envelope_normalization [where net = twin_upstream and net' = twin_upstream,
      OF kale_search_miss warm_world_token nn s_resp ok f1 len kale_autocomplete_miss warm_world_token
        a_resp ok f2]
  from T [THEN conjunct2, THEN conjunct2, THEN conjunct1] T [THEN conjunct1]
  show ?thesis by (simp add: kale_summary_def)
qed

lemma configured_world_fields:
  "clock configured_world = 0" "sent configured_world = []" "cache configured_world = Map.empty"
  by (simp_all add: configured_world_def fresh_world_def)

lemma sample_grant:
  "getAccessToken sample_upstream configured_world =
     (Inr (Str ''abc''),
      cacheResponse TOKEN_CACHE_KEY
        (Obj [(''access_token'', Str ''abc''), (''token_type'', Str ''Bearer''),
              (''expires_in'', Num (Fin 3600)), (''expires_at'', Num (Fin 3540005))])
        (Num (Fin 3600))
        (configured_world\<lparr> clock := 5, sent := [tokenRequest (Str ''id'') (Str ''secret'')] \<rparr>))"
proof -
  have miss: "\<not> token_valid (getCachedResponse TOKEN_CACHE_KEY configured_world) configured_world"
    by (simp add: configured_world_no_token token_valid_Undefined)
  have cid: "truthy (getenv configured_world ''FATSECRET_CLIENT_ID'')"
    and cs: "truthy (getenv configured_world ''FATSECRET_CLIENT_SECRET'')"
    by (simp_all add: getenv_configured)
  have grant: "sample_upstream configured_world
      (tokenRequest (getenv configured_world ''FATSECRET_CLIENT_ID'')
        (getenv configured_world ''FATSECRET_CLIENT_SECRET'')) = (Response 200 (Inr sample_token), 5)"
    by (simp add: sample_upstream_def tokenRequest_def)
  have ok: "ok 200" by (simp add: ok_def)
  have nn: "\<not> nullish sample_token" by (simp add: sample_token_def nullish_def)
  note G = getAccessToken_grant [where net = sample_upstream and w = configured_world,
        OF miss cid cs grant ok nn refl]
  show ?thesis
    unfolding G
    by (simp add: getenv_configured sample_token_def spread_def now_def num_sub_def
        configured_world_fields)
qed

lemma granted_world_fields:
  "clock granted_world = 5"
  "sent granted_world = [tokenRequest (Str ''id'') (Str ''secret'')]"
  "env granted_world = env configured_world"
  "cache granted_world = [TOKEN_CACHE_KEY \<mapsto>
      \<lparr> entry_value = Obj [(''access_token'', Str ''abc''), (''token_type'', Str ''Bearer''),
              (''expires_in'', Num (Fin 3600)), (''expires_at'', Num (Fin 3540005))],
        expiresAt = Fin 3600005 \<rparr>]"
  by (simp_all add: granted_world_def sample_grant cacheResponse_def now_def
      configured_world_fields)

lemma granted_world_token: "getAccessToken sample_upstream configured_world = (Inr (Str ''abc''), granted_world)"
  by (simp add: granted_world_def sample_grant)

lemma kale_autocomplete_miss_configured:
  "\<not> truthy (getCachedResponse ''fatsecret_autocomplete_kale_4_default'' configured_world)"
  by (simp add: configured_world_no_token)

lemma kale_world_eq:
  "autocompleteSearch sample_upstream (Str ''Kale'') Undefined Undefined configured_world =
     (Inr (Arr [Str ''kale'']),
      cacheResponse ''fatsecret_autocomplete_kale_4_default'' (Arr [Str ''kale'']) (Num (Fin 900))
        (granted_world\<lparr> clock := 10,
           sent := [tokenRequest (Str ''id'') (Str ''secret''),
                    apiRequest (Str ''abc'')
                      [(''method'', ''foods.autocomplete.v2''), (''expression'', ''Kale''),
                       (''max_results'', ''4''), (''format'', ''json'')]] \<rparr>))"
proof -
  have len: "2 \<le> length (trim ''Kale'')" by (simp add: kale_trim)
  show ?thesis
    using autocompleteSearch_sent [where net = sample_upstream and maxResults = Undefined and region = Undefined,
        OF len kale_autocomplete_key [symmetric] kale_autocomplete_miss_configured granted_world_token refl refl]
    by (simp add: kale_params granted_world_fields sample_upstream_def apiRequest_def
        FATSECRET_API_URL_def FATSECRET_TOKEN_URL_def ok_def as_list_def)
qed

lemma kale_world_fields:
  "clock kale_world = 10"
  "sent kale_world = [tokenRequest (Str ''id'') (Str ''secret''),
                    apiRequest (Str ''abc'')
                      [(''method'', ''foods.autocomplete.v2''), (''expression'', ''Kale''),
                       (''max_results'', ''4''), (''format'', ''json'')]]"
  "env kale_world = env configured_world"
  "cache kale_world ''fatsecret_autocomplete_kale_4_default'' =
     Some \<lparr> entry_value = Arr [Str ''kale''], expiresAt = Fin 900010 \<rparr>"
  "cache kale_world TOKEN_CACHE_KEY = Some
      \<lparr> entry_value = Obj [(''access_token'', Str ''abc''), (''token_type'', Str ''Bearer''),
              (''expires_in'', Num (Fin 3600)), (''expires_at'', Num (Fin 3540005))],
        expiresAt = Fin 3600005 \<rparr>"
  by (simp_all add: kale_world_def kale_world_eq cacheResponse_def now_def granted_world_fields
      TOKEN_CACHE_KEY_def)


lemma autocomplete_key_text:
  "autocomplete_key le maxResults region =
     ''fatsecret_autocomplete_'' @ trim le @ ''_'' @ ToString maxResults @ ''_''
       @ ToString (js_or region (Str ''default''))"
  by (simp add: autocomplete_key_def)

lemma kale_key_text:
  "''fatsecret_autocomplete_'' @ trim (toLowerCase ''Kale'') @ ''_''
     @ ToString (default_param Undefined (Num (Fin 4))) @ ''_''
     @ ToString (js_or (default_param Undefined Null) (Str ''default''))
   = ''fatsecret_autocomplete_kale_4_default''"
  by code_simp

lemma kale_request_text:
  "Request FATSECRET_API_URL
     [(''Content-Type'', ''application/x-www-form-urlencoded''),
      (''Authorization'', ''Bearer '' @ ToString (Str ''abc''))]
     ([(''method'', ''foods.autocomplete.v2''),
       (''expression'', trim ''Kale''),
       (''max_results'', numToString (num_min (ToNumber (default_param Undefined (Num (Fin 4)))) (Fin 10))),
       (''format'', ''json'')]
      @ (if truthy (default_param Undefined Null)
         then [(''region'', ToString (default_param Undefined Null))] else []))
   = apiRequest (Str ''abc'')
       [(''method'', ''foods.autocomplete.v2''), (''expression'', ''Kale''),
        (''max_results'', ''4''), (''format'', ''json'')]"
proof -
  have "numToString (num_min (ToNumber (default_param Undefined (Num (Fin 4)))) (Fin 10)) = ''4''"
    by code_simp
  then show ?thesis by (simp add: apiRequest_def kale_trim default_param_def)
qed

lemma kale_case_lengths: "2 \<le> length (trim ''Kale'')" "2 \<le> length (trim ''kALE'')"
  by code_simp+

lemma kale_world_reachable: "reachable kale_world"
  unfolding kale_world_def
  by (rule reachable.autocomplete, rule reachable.start) (simp_all add: configured_world_fields)

lemma stale_params:
  "autocomplete_params (trim ''kALE'') (default_param Undefined (Num (Fin 4))) (default_param Undefined Null)
     = [(''method'', ''foods.autocomplete.v2''), (''expression'', ''kALE''), (''max_results'', ''4''),
        (''format'', ''json'')]"
  by code_simp

lemma stale_key:
  "autocomplete_key (toLowerCase ''kALE'') (default_param Undefined (Num (Fin 4))) (default_param Undefined Null)
     = ''fatsecret_autocomplete_kale_4_default''"
  by code_simp

text \<open>
  C10. The cache key of \<open>autocompleteSearch\<close> is the text \<open>fatsecret_autocomplete_\<close>, the
  lower-cased and trimmed expression, \<open>maxResults\<close> and the region (or \<open>default\<close>), joined
  by underscores; the request carries the expression trimmed, in its own case. When a first
  call has fetched a list of suggestions from the upstream, a second call with the same
  \<open>maxResults\<close> and \<open>region\<close>, whose expression has the same lower case and passes the
  length guard, made while that entry is the cached one and no later than 900 seconds after
  it was stored, returns that list and leaves the world as it is: it sends no request.
\<close>

theorem autocomplete_case_insensitive_cache:
  assumes len1: "2 \<le> length (trim x1)"
    and len2: "2 \<le> length (trim x2)"
    and same: "toLowerCase x1 = toLowerCase x2"
    and key: "key = ''fatsecret_autocomplete_'' @ trim (toLowerCase x1) @ ''_''
                @ ToString (default_param limit (Num (Fin 4))) @ ''_''
                @ ToString (js_or (default_param region Null) (Str ''default''))"
    and miss: "\<not> truthy (getCachedResponse key w)"
    and token: "getAccessToken net w = (Inr accessToken, w1)"
    and req: "req = Request FATSECRET_API_URL
                [(''Content-Type'', ''application/x-www-form-urlencoded''),
                 (''Authorization'', ''Bearer '' @ ToString accessToken)]
                ([(''method'', ''foods.autocomplete.v2''),
                  (''expression'', trim x1),
                  (''max_results'', numToString (num_min (ToNumber (default_param limit (Num (Fin 4)))) (Fin 10))),
                  (''format'', ''json'')]
                 @ (if truthy (default_param region Null)
                    then [(''region'', ToString (default_param region Null))] else []))"
    and response: "fst (net w1 req) = Response status (Inr responseData)"
    and status: "ok status"
    and present: "truthy (js_prop (js_prop responseData ''suggestions'') ''suggestion'')"
    and first: "autocompleteSearch net (Str x1) limit region w = (r, w')"
  shows "r = Inr (as_list (js_prop (js_prop responseData ''suggestions'') ''suggestion''))
    \<and> sent w' = sent w1 @ [req]
    \<and> cache w' key = Some \<lparr> entry_value = as_list (js_prop (js_prop responseData ''suggestions'') ''suggestion''),
                             expiresAt = Fin (of_int (clock w') + 900 * 1000) \<rparr>
    \<and> (\<forall>net2 w2. cache w2 key = cache w' key \<and> clock w2 \<le> clock w' + 900 * 1000
          \<longrightarrow> autocompleteSearch net2 (Str x2) limit region w2 = (r, w2))"
proof -
  let ?list = "as_list (js_prop (js_prop responseData ''suggestions'') ''suggestion'')"
  let ?w2 = "w1\<lparr> clock := clock w1 + int (snd (net w1 req)), sent := sent w1 @ [req] \<rparr>"
  have key1: "key = autocomplete_key (toLowerCase x1) (default_param limit (Num (Fin 4))) (default_param region Null)"
    by (simp only: key autocomplete_key_text)
  have req1: "req = apiRequest accessToken
      (autocomplete_params (trim x1) (default_param limit (Num (Fin 4))) (default_param region Null))"
    by (simp only: req apiRequest_def autocomplete_params_def)
  have run: "autocompleteSearch net (Str x1) limit region w =
      (Inr ?list, cacheResponse key ?list (Num (Fin 900)) ?w2)"
    using autocompleteSearch_sent [where net = net, OF len1 key1 miss token req1 refl] response status present
    by simp
  with first have r: "r = Inr ?list" and w': "w' = cacheResponse key ?list (Num (Fin 900)) ?w2"
    by simp_all
  have sent: "sent w' = sent w1 @ [req]" by (simp add: w')
  have entry: "cache w' key = Some \<lparr> entry_value = ?list, expiresAt = Fin (of_int (clock w') + 900 * 1000) \<rparr>"
    by (simp add: w' cacheResponse_def now_def)
  have list: "truthy ?list" by (simp add: as_list_def split: jsval.splits)
  have second: "autocompleteSearch net2 (Str x2) limit region w2 = (r, w2)"
    if kept: "cache w2 key = cache w' key" and fresh: "clock w2 \<le> clock w' + 900 * 1000" for net2 w2
  proof -
    have key2: "key = autocomplete_key (toLowerCase x2) (default_param limit (Num (Fin 4))) (default_param region Null)"
      using key1 same by simp
    have got: "getCachedResponse key w2 = ?list"
      using fresh by (simp add: getCachedResponse_def kept entry now_def)
    with list have "truthy (getCachedResponse key w2)" by simp
    from autocompleteSearch_hit [where net = net2, OF len2 key2 this] got r show ?thesis by simp
  qed
  from r sent entry second show ?thesis by blast
qed


theorem autocomplete_case_insensitive_cache_witness:
  "toLowerCase ''Kale'' = toLowerCase ''kALE''
   \<and> fst (autocompleteSearch sample_upstream (Str ''Kale'') Undefined Undefined configured_world)
       = Inr (Arr [Str ''kale''])
   \<and> sent kale_world =
       [tokenRequest (Str ''id'') (Str ''secret''),
        apiRequest (Str ''abc'')
          [(''method'', ''foods.autocomplete.v2''), (''expression'', ''Kale''),
           (''max_results'', ''4''), (''format'', ''json'')]]
   \<and> cache kale_world ''fatsecret_autocomplete_kale_4_default''
       = Some \<lparr> entry_value = Arr [Str ''kale''], expiresAt = Fin 900010 \<rparr>
   \<and> autocompleteSearch no_network (Str ''kALE'') Undefined Undefined (kale_world\<lparr> clock := 900010 \<rparr>)
       = (Inr (Arr [Str ''kale'']), kale_world\<lparr> clock := 900010 \<rparr>)"
proof -
  have response: "fst (sample_upstream granted_world
      (apiRequest (Str ''abc'')
        [(''method'', ''foods.autocomplete.v2''), (''expression'', ''Kale''),
         (''max_results'', ''4''), (''format'', ''json'')]))
      = Response 200 (Inr (Obj [(''suggestions'', Obj [(''suggestion'', Str ''kale'')])]))"
    by (simp add: sample_upstream_def apiRequest_def FATSECRET_API_URL_def FATSECRET_TOKEN_URL_def)
  have ok: "ok 200" by (simp add: ok_def)
  have present: "truthy (js_prop (js_prop (Obj [(''suggestions'', Obj [(''suggestion'', Str ''kale'')])])
      ''suggestions'') ''suggestion'')" by simp
  have first: "autocompleteSearch sample_upstream (Str ''Kale'') Undefined Undefined configured_world
      = (fst (autocompleteSearch sample_upstream (Str ''Kale'') Undefined Undefined configured_world), kale_world)"
    by (simp add: kale_world_def)
  note T = autocomplete_case_insensitive_cache [where net = sample_upstream and ?x2.0 = "''kALE''",
      OF kale_case_lengths same_case_sample kale_key_text [symmetric] kale_autocomplete_miss_configured
        granted_world_token kale_request_text [symmetric] response ok present first]
  have r: "fst (autocompleteSearch sample_upstream (Str ''Kale'') Undefined Undefined configured_world)
      = Inr (Arr [Str ''kale''])"
    using T [THEN conjunct1] by (simp add: as_list_def)
  have sent: "sent kale_world =
       [tokenRequest (Str ''id'') (Str ''secret''),
        apiRequest (Str ''abc'')
          [(''method'', ''foods.autocomplete.v2''), (''expression'', ''Kale''),
           (''max_results'', ''4''), (''format'', ''json'')]]"
    using T [THEN conjunct2, THEN conjunct1] by (simp add: granted_world_fields)
  have entry: "cache kale_world ''fatsecret_autocomplete_kale_4_default''
       = Some \<lparr> entry_value = Arr [Str ''kale''], expiresAt = Fin 900010 \<rparr>"
    using T [THEN conjunct2, THEN conjunct2, THEN conjunct1]
    by (simp add: as_list_def kale_world_fields(1))
  have "clock (kale_world\<lparr> clock := 900010 \<rparr>) \<le> clock kale_world + 900 * 1000"
    by (simp add: kale_world_fields(1))
  with T [THEN conjunct2, THEN conjunct2, THEN conjunct2, rule_format,
      of "kale_world\<lparr> clock := 900010 \<rparr>" no_network]
  have "autocompleteSearch no_network (Str ''kALE'') Undefined Undefined (kale_world\<lparr> clock := 900010 \<rparr>)
      = (fst (autocompleteSearch sample_upstream (Str ''Kale'') Undefined Undefined configured_world),
         kale_world\<lparr> clock := 900010 \<rparr>)" by simp
  with r sent entry same_case_sample show ?thesis by simp
qed


text \<open>
  Later than 900 seconds after the first call, the second call finds nothing under the key
  and sends a request of its own, with its own spelling of the expression.
\<close>

theorem expired_entry_is_fetched_again:
  "toLowerCase ''Kale'' = toLowerCase ''kALE''
   \<and> reachable (kale_world\<lparr> clock := 900011 \<rparr>)
   \<and> cache kale_world ''fatsecret_autocomplete_kale_4_default''
       = Some \<lparr> entry_value = Arr [Str ''kale''], expiresAt = Fin 900010 \<rparr>
   \<and> sent (snd (autocompleteSearch sample_upstream (Str ''kALE'') Undefined Undefined
               (kale_world\<lparr> clock := 900011 \<rparr>)))
       = sent kale_world
         @ [apiRequest (Str ''abc'')
              [(''method'', ''foods.autocomplete.v2''), (''expression'', ''kALE''),
               (''max_results'', ''4''), (''format'', ''json'')]]"
proof -
  let ?w = "kale_world\<lparr> clock := 900011 \<rparr>"
  have reach: "reachable ?w"
    by (rule reachable.elapse [OF kale_world_reachable]) (simp add: kale_world_fields(1))
  have miss: "\<not> truthy (getCachedResponse ''fatsecret_autocomplete_kale_4_default'' ?w)"
    by (simp add: getCachedResponse_def kale_world_fields now_def)
  have valid: "token_valid (getCachedResponse TOKEN_CACHE_KEY ?w) ?w"
    by (simp add: getCachedResponse_def kale_world_fields now_def token_valid_def)
  have token: "getAccessToken sample_upstream ?w = (Inr (Str ''abc''), ?w)"
    using getAccessToken_hit [where net = sample_upstream, OF valid]
    by (simp add: getCachedResponse_def kale_world_fields now_def)
  have len: "2 \<le> length (trim ''kALE'')" by (rule kale_case_lengths)
  have "sent (snd (autocompleteSearch sample_upstream (Str ''kALE'') Undefined Undefined ?w))
      = sent kale_world
         @ [apiRequest (Str ''abc'')
              [(''method'', ''foods.autocomplete.v2''), (''expression'', ''kALE''),
               (''max_results'', ''4''), (''format'', ''json'')]]"
    using autocompleteSearch_sent [where net = sample_upstream and maxResults = Undefined and region = Undefined,
        OF len stale_key [symmetric] miss token refl refl]
    by (simp add: stale_params sample_upstream_def apiRequest_def
        FATSECRET_API_URL_def FATSECRET_TOKEN_URL_def ok_def as_list_def)
  with reach same_case_sample kale_world_fields(4) show ?thesis by simp
qed

subsection \<open>The credentials\<close>

























end
